theory Spec2Isabelle
  imports Complex_Main "HOL-Library.Sublist"
begin

section \<open>JavaScript values used by the portfolio CMS\<close>

text \<open>
  Strings are \<^typ>\<open>string\<close>. A value that may be \<open>undefined\<close> or \<open>null\<close> is an
  \<^typ>\<open>'a option\<close>. A rejected promise or a thrown \<open>Error\<close> is the left injection of a
  sum and carries the error's \<open>message\<close>.
\<close>

type_synonym thrown = string

text \<open>\<open>a || b\<close> on a \<open>string | undefined\<close>: the empty string is falsy as well.\<close>

definition js_or :: "string option \<Rightarrow> string \<Rightarrow> string" where
  "js_or a b = (case a of None \<Rightarrow> b | Some s \<Rightarrow> (if s = [] then b else s))"

section \<open>lib/imageCompression\<close>

record File =
  file_name :: string
  file_type :: string
  lastModified :: int
  file_bits :: string

text \<open>
  A key of an options object is missing, or present with a value that may be
  \<open>undefined\<close>.
\<close>

datatype 'a key = Absent | Present "'a option"

record CompressionOptions =
  maxSizeMB :: "rat key"
  maxWidthOrHeight :: "rat key"
  useWebWorker :: "bool key"

definition defaultOptions :: CompressionOptions where
  "defaultOptions =
     \<lparr>maxSizeMB = Present (Some 1), maxWidthOrHeight = Present (Some 1920),
      useWebWorker = Present (Some True)\<rparr>"

text \<open>
  The object spread \<open>{ ...defaultOptions, ...options }\<close>: a key that \<open>options\<close> has
  wins, also when its value is \<open>undefined\<close>.
\<close>

definition spread_key :: "'a key \<Rightarrow> 'a key \<Rightarrow> 'a key" where
  "spread_key d v = (case v of Absent \<Rightarrow> d | Present x \<Rightarrow> Present x)"

definition mergedOptions :: "CompressionOptions \<Rightarrow> CompressionOptions" where
  "mergedOptions options =
     \<lparr>maxSizeMB = spread_key (maxSizeMB defaultOptions) (maxSizeMB options),
      maxWidthOrHeight = spread_key (maxWidthOrHeight defaultOptions) (maxWidthOrHeight options),
      useWebWorker = spread_key (useWebWorker defaultOptions) (useWebWorker options)\<rparr>"

text \<open>
  The library call \<open>imageCompression(file, options)\<close> is an external transform: it is a
  parameter that either rejects (\<open>Inl\<close>) or yields the compressed file. \<open>now\<close> is the
  value of \<open>Date.now()\<close>.
\<close>

type_synonym imageCompression = "File \<Rightarrow> CompressionOptions \<Rightarrow> thrown + File"

text \<open>The body of the \<open>try\<close> block of \<open>compressImage\<close>.\<close>

definition compressImage_try :: "imageCompression \<Rightarrow> int \<Rightarrow> File \<Rightarrow> CompressionOptions \<Rightarrow> thrown + File" where
  "compressImage_try ic now file options =
     (case ic file (mergedOptions options) of
        Inl err \<Rightarrow> Inl err
      | Inr compressedFile \<Rightarrow>
          Inr \<lparr>file_name = file_name file, file_type = file_type compressedFile,
               lastModified = now, file_bits = file_bits compressedFile\<rparr>)"

text \<open>\<open>compressImage\<close>: the \<open>catch\<close> branch logs and returns the input file.\<close>

definition compressImage :: "imageCompression \<Rightarrow> int \<Rightarrow> File \<Rightarrow> CompressionOptions \<Rightarrow> thrown + File" where
  "compressImage ic now file options =
     (case compressImage_try ic now file options of
        Inl err \<Rightarrow> Inr file
      | Inr f \<Rightarrow> Inr f)"

text \<open>The default argument \<open>options = {}\<close>.\<close>

definition no_options :: CompressionOptions where
  "no_options = \<lparr>maxSizeMB = Absent, maxWidthOrHeight = Absent, useWebWorker = Absent\<rparr>"

section \<open>types/index.ts\<close>

record User =
  user_id :: string
  user_email :: string
  user_username :: string
  user_name :: string

record 'a ApiResponse =
  success :: bool
  data :: "'a option"
  error :: "string option"

record Skill =
  skill_id :: string
  skill_userId :: string
  skill_name :: string
  skill_icon :: string
  skill_createdAt :: string
  skill_updatedAt :: string

text \<open>
  Years are JavaScript numbers; the model keeps the integers. An association list
  \<open>{ skill: Skill }[]\<close> is the list of its skills, \<open>None\<close> when the key is missing.
\<close>

record Experience =
  exp_id :: string
  exp_userId :: string
  exp_startYear :: int
  exp_endYear :: "int option"
  exp_companyName :: string
  exp_description :: "string option"
  exp_location :: string
  exp_createdAt :: string
  exp_updatedAt :: string
  experienceSkills :: "Skill list option"

record Education =
  edu_id :: string
  edu_userId :: string
  edu_year :: string
  edu_institutionName :: string
  edu_description :: "string option"
  edu_createdAt :: string
  edu_updatedAt :: string

record Certification =
  cert_id :: string
  cert_userId :: string
  cert_name :: string
  cert_issuingOrganization :: string
  cert_year :: int
  cert_description :: "string option"
  cert_certificateLink :: "string option"
  cert_createdAt :: string
  cert_updatedAt :: string
  certificationSkills :: "Skill list option"

record Project =
  proj_id :: string
  proj_userId :: string
  proj_title :: string
  proj_slug :: string
  proj_description :: string
  proj_content :: string
  proj_coverImage :: "string option"
  proj_contentImages :: "string list"
  proj_publishedAt :: "string option"
  proj_highlighted :: "bool option"
  proj_createdAt :: string
  proj_updatedAt :: string
  projectSkills :: "Skill list option"

record UserDetails =
  ud_id :: string
  ud_userId :: string
  ud_name :: string
  ud_role :: string
  ud_description :: "string option"
  ud_socialMedias :: "string list option"
  ud_profilePhoto :: "string option"
  ud_createdAt :: string
  ud_updatedAt :: string

section \<open>The transport and the observable effects\<close>

text \<open>
  \<open>FormData\<close> is the ordered list of its appended entries. The request bodies of the
  JSON services are the records of their \<open>...CreateData\<close> interfaces; a key that is
  \<open>undefined\<close> is \<open>None\<close> and is dropped by the JSON serialisation.
\<close>

datatype FormDataEntryValue = Str string | Blob File

type_synonym FormData = "(string \<times> FormDataEntryValue) list"

record ExperienceCreateData =
  ecd_startYear :: int
  ecd_endYear :: "int option"
  ecd_companyName :: string
  ecd_description :: "string option"
  ecd_location :: string
  ecd_skillIds :: "string list option"

record CertificationCreateData =
  ccd_name :: string
  ccd_issuingOrganization :: string
  ccd_year :: int
  ccd_description :: "string option"
  ccd_certificateLink :: "string option"
  ccd_skillIds :: "string list option"

record EducationCreateData =
  ed_year :: string
  ed_institutionName :: string
  ed_description :: "string option"

datatype verb = GET | POST | PUT | DELETE

datatype body =
  NoBody
| Multipart FormData
| ExperienceJson ExperienceCreateData
| CertificationJson CertificationCreateData
| EducationJson EducationCreateData

text \<open>
  What a page does to the outside, in program order: the requests handed to the
  transport and the notifications shown.
\<close>

datatype event =
  Request verb string body
| ToastSuccess string
| ToastError string

text \<open>
  The module \<open>./api\<close> is the transport. What it answers to one awaited call is an
  input of the model: the promise rejects with a message (\<open>Inl\<close>) or resolves to a
  response whose \<open>data\<close> is the envelope.
\<close>

type_synonym 'a transport = "thrown + 'a ApiResponse"

text \<open>
  The lines every data-returning service method ends with:
  \<^verbatim>\<open>if (response.data.success && response.data.data) return response.data.data;
throw new Error(response.data.error || fallback);\<close>
  The data of every envelope here is an object or an array, which is truthy whenever it
  is present.
\<close>

definition unwrap_data :: "'a transport \<Rightarrow> string \<Rightarrow> thrown + 'a" where
  "unwrap_data response fallback =
     (case response of
        Inl err \<Rightarrow> Inl err
      | Inr env \<Rightarrow>
          (case data env of
             Some d \<Rightarrow> (if success env then Inr d else Inl (js_or (error env) fallback))
           | None \<Rightarrow> Inl (js_or (error env) fallback)))"

text \<open>
  The lines every \<open>delete\<close> method ends with:
  \<^verbatim>\<open>if (!response.data.success) throw new Error(response.data.error || fallback);\<close>
\<close>

definition unwrap_void :: "unit transport \<Rightarrow> string \<Rightarrow> thrown + unit" where
  "unwrap_void response fallback =
     (case response of
        Inl err \<Rightarrow> Inl err
      | Inr env \<Rightarrow> (if \<not> success env then Inl (js_or (error env) fallback) else Inr ()))"

text \<open>
  A service method takes the transport's answer and the log of effects so far; it
  returns its result (\<open>Inl\<close> when it throws) and the log with its request added.
\<close>

type_synonym 'a called = "(thrown + 'a) \<times> event list"

section \<open>services/skills\<close>

definition skillsService_getAll :: "Skill list transport \<Rightarrow> event list \<Rightarrow> Skill list called" where
  "skillsService_getAll response net =
     (unwrap_data response ''Failed to fetch skills'', net @ [Request GET ''/skills'' NoBody])"

definition skillsService_getById :: "string \<Rightarrow> Skill transport \<Rightarrow> event list \<Rightarrow> Skill called" where
  "skillsService_getById ident response net =
     (unwrap_data response ''Failed to fetch skill'',
      net @ [Request GET (''/skills/'' @ ident) NoBody])"

definition skillsService_create :: "FormData \<Rightarrow> Skill transport \<Rightarrow> event list \<Rightarrow> Skill called" where
  "skillsService_create fd response net =
     (unwrap_data response ''Failed to create skill'',
      net @ [Request POST ''/skills'' (Multipart fd)])"

definition skillsService_update :: "string \<Rightarrow> FormData \<Rightarrow> Skill transport \<Rightarrow> event list \<Rightarrow> Skill called" where
  "skillsService_update ident fd response net =
     (unwrap_data response ''Failed to update skill'',
      net @ [Request PUT (''/skills/'' @ ident) (Multipart fd)])"

definition skillsService_delete :: "string \<Rightarrow> unit transport \<Rightarrow> event list \<Rightarrow> unit called" where
  "skillsService_delete ident response net =
     (unwrap_void response ''Failed to delete skill'',
      net @ [Request DELETE (''/skills/'' @ ident) NoBody])"

section \<open>services/experience\<close>

definition experienceService_getAll :: "Experience list transport \<Rightarrow> event list \<Rightarrow> Experience list called" where
  "experienceService_getAll response net =
     (unwrap_data response ''Failed to fetch experience'',
      net @ [Request GET ''/experience'' NoBody])"

definition experienceService_getById :: "string \<Rightarrow> Experience transport \<Rightarrow> event list \<Rightarrow> Experience called" where
  "experienceService_getById ident response net =
     (unwrap_data response ''Failed to fetch experience'',
      net @ [Request GET (''/experience/'' @ ident) NoBody])"

definition experienceService_create :: "ExperienceCreateData \<Rightarrow> Experience transport \<Rightarrow> event list \<Rightarrow> Experience called" where
  "experienceService_create d response net =
     (unwrap_data response ''Failed to create experience'',
      net @ [Request POST ''/experience'' (ExperienceJson d)])"

definition experienceService_update :: "string \<Rightarrow> ExperienceCreateData \<Rightarrow> Experience transport \<Rightarrow> event list \<Rightarrow> Experience called" where
  "experienceService_update ident d response net =
     (unwrap_data response ''Failed to update experience'',
      net @ [Request PUT (''/experience/'' @ ident) (ExperienceJson d)])"

definition experienceService_delete :: "string \<Rightarrow> unit transport \<Rightarrow> event list \<Rightarrow> unit called" where
  "experienceService_delete ident response net =
     (unwrap_void response ''Failed to delete experience'',
      net @ [Request DELETE (''/experience/'' @ ident) NoBody])"

section \<open>services/certifications\<close>

definition certificationsService_getAll :: "Certification list transport \<Rightarrow> event list \<Rightarrow> Certification list called" where
  "certificationsService_getAll response net =
     (unwrap_data response ''Failed to fetch certifications'',
      net @ [Request GET ''/certifications'' NoBody])"

definition certificationsService_getById :: "string \<Rightarrow> Certification transport \<Rightarrow> event list \<Rightarrow> Certification called" where
  "certificationsService_getById ident response net =
     (unwrap_data response ''Failed to fetch certification'',
      net @ [Request GET (''/certifications/'' @ ident) NoBody])"

definition certificationsService_create :: "CertificationCreateData \<Rightarrow> Certification transport \<Rightarrow> event list \<Rightarrow> Certification called" where
  "certificationsService_create d response net =
     (unwrap_data response ''Failed to create certification'',
      net @ [Request POST ''/certifications'' (CertificationJson d)])"

definition certificationsService_update :: "string \<Rightarrow> CertificationCreateData \<Rightarrow> Certification transport \<Rightarrow> event list \<Rightarrow> Certification called" where
  "certificationsService_update ident d response net =
     (unwrap_data response ''Failed to update certification'',
      net @ [Request PUT (''/certifications/'' @ ident) (CertificationJson d)])"

definition certificationsService_delete :: "string \<Rightarrow> unit transport \<Rightarrow> event list \<Rightarrow> unit called" where
  "certificationsService_delete ident response net =
     (unwrap_void response ''Failed to delete certification'',
      net @ [Request DELETE (''/certifications/'' @ ident) NoBody])"

section \<open>services/education\<close>

definition educationService_getAll :: "Education list transport \<Rightarrow> event list \<Rightarrow> Education list called" where
  "educationService_getAll response net =
     (unwrap_data response ''Failed to fetch education'',
      net @ [Request GET ''/education'' NoBody])"

definition educationService_getById :: "string \<Rightarrow> Education transport \<Rightarrow> event list \<Rightarrow> Education called" where
  "educationService_getById ident response net =
     (unwrap_data response ''Failed to fetch education'',
      net @ [Request GET (''/education/'' @ ident) NoBody])"

definition educationService_create :: "EducationCreateData \<Rightarrow> Education transport \<Rightarrow> event list \<Rightarrow> Education called" where
  "educationService_create d response net =
     (unwrap_data response ''Failed to create education'',
      net @ [Request POST ''/education'' (EducationJson d)])"

definition educationService_update :: "string \<Rightarrow> EducationCreateData \<Rightarrow> Education transport \<Rightarrow> event list \<Rightarrow> Education called" where
  "educationService_update ident d response net =
     (unwrap_data response ''Failed to update education'',
      net @ [Request PUT (''/education/'' @ ident) (EducationJson d)])"

definition educationService_delete :: "string \<Rightarrow> unit transport \<Rightarrow> event list \<Rightarrow> unit called" where
  "educationService_delete ident response net =
     (unwrap_void response ''Failed to delete education'',
      net @ [Request DELETE (''/education/'' @ ident) NoBody])"

section \<open>services/projects\<close>

definition projectsService_getAll :: "Project list transport \<Rightarrow> event list \<Rightarrow> Project list called" where
  "projectsService_getAll response net =
     (unwrap_data response ''Failed to fetch projects'',
      net @ [Request GET ''/projects'' NoBody])"

definition projectsService_getBySlug :: "string \<Rightarrow> Project transport \<Rightarrow> event list \<Rightarrow> Project called" where
  "projectsService_getBySlug slug response net =
     (unwrap_data response ''Failed to fetch project'',
      net @ [Request GET (''/projects/'' @ slug) NoBody])"

definition projectsService_create :: "FormData \<Rightarrow> Project transport \<Rightarrow> event list \<Rightarrow> Project called" where
  "projectsService_create fd response net =
     (unwrap_data response ''Failed to create project'',
      net @ [Request POST ''/projects'' (Multipart fd)])"

definition projectsService_update :: "string \<Rightarrow> FormData \<Rightarrow> Project transport \<Rightarrow> event list \<Rightarrow> Project called" where
  "projectsService_update ident fd response net =
     (unwrap_data response ''Failed to update project'',
      net @ [Request PUT (''/projects/'' @ ident) (Multipart fd)])"

definition projectsService_delete :: "string \<Rightarrow> unit transport \<Rightarrow> event list \<Rightarrow> unit called" where
  "projectsService_delete ident response net =
     (unwrap_void response ''Failed to delete project'',
      net @ [Request DELETE (''/projects/'' @ ident) NoBody])"

section \<open>services/userDetails\<close>

text \<open>\<open>get\<close> returns \<open>null\<close> where its siblings throw.\<close>

definition userDetailsService_get :: "UserDetails transport \<Rightarrow> event list \<Rightarrow> UserDetails option called" where
  "userDetailsService_get response net =
     ((case response of
         Inl err \<Rightarrow> Inl err
       | Inr env \<Rightarrow>
           (case data env of
              Some d \<Rightarrow> (if success env then Inr (Some d) else Inr None)
            | None \<Rightarrow> Inr None)),
      net @ [Request GET ''/user'' NoBody])"

definition userDetailsService_create :: "FormData \<Rightarrow> UserDetails transport \<Rightarrow> event list \<Rightarrow> UserDetails called" where
  "userDetailsService_create fd response net =
     (unwrap_data response ''Failed to create user details'',
      net @ [Request POST ''/user'' (Multipart fd)])"

definition userDetailsService_update :: "FormData \<Rightarrow> UserDetails transport \<Rightarrow> event list \<Rightarrow> UserDetails called" where
  "userDetailsService_update fd response net =
     (unwrap_data response ''Failed to update user details'',
      net @ [Request PUT ''/user'' (Multipart fd)])"

section \<open>String methods\<close>

text \<open>
  \<open>toLowerCase\<close> on the ASCII letters; other characters are kept. \<open>includes_str\<close> is
  \<open>String.prototype.includes\<close>, the substring test, \<open>trim\<close> strips the ASCII white space at both ends.
\<close>

definition lower_char :: "char \<Rightarrow> char" where
  "lower_char c =
     (if (65::nat) \<le> of_char c \<and> of_char c \<le> (90::nat) then char_of (of_char c + (32::nat)) else c)"

definition toLowerCase :: "string \<Rightarrow> string" where
  "toLowerCase s = map lower_char s"

fun includes_str :: "string \<Rightarrow> string \<Rightarrow> bool" where
  "includes_str [] q = (q = [])"
| "includes_str (c # cs) q = (prefix q (c # cs) \<or> includes_str cs q)"

definition is_space :: "char \<Rightarrow> bool" where
  "is_space c = (of_char c \<in> {9::nat, 10, 11, 12, 13, 32})"

definition trim :: "string \<Rightarrow> string" where
  "trim s = rev (dropWhile is_space (rev (dropWhile is_space s)))"

section \<open>pages/Skills\<close>

text \<open>
  The values held by the form library for the skill form: the text of the name input
  and the \<open>FileList\<close> of the icon input (\<open>None\<close> while it is \<open>undefined\<close>).
\<close>

record SkillFormData =
  sfd_name :: string
  sfd_icon :: "File list option"

text \<open>
  An issue of a schema as the form shows it: the field and the message the schema
  gives for it, \<open>None\<close> where the text is the validation library's own. For a union
  the form shows the first issue of the first member.
\<close>

type_synonym issue = "string \<times> string option"

definition skillSchema :: "SkillFormData \<Rightarrow> issue list" where
  "skillSchema d = (if length (sfd_name d) < 1 then [(''name'', Some ''Skill name is required'')] else [])"

text \<open>
  The component state of \<open>Skills\<close>: its \<open>useState\<close> cells, the form values and errors
  kept by \<open>useForm\<close>, and the log of effects.
\<close>

record SkillsPage =
  skills :: "Skill list"
  sk_isLoading :: bool
  sk_isModalOpen :: bool
  editingSkill :: "Skill option"
  sk_isSubmitting :: bool
  iconPreview :: "string option"
  sk_searchQuery :: string
  sk_confirmDialog :: "bool \<times> string option"
  sk_form :: SkillFormData
  sk_errors :: "issue list"
  sk_log :: "event list"

definition skill_defaultValues :: SkillFormData where
  "skill_defaultValues = \<lparr>sfd_name = [], sfd_icon = None\<rparr>"

definition Skills_mount :: SkillsPage where
  "Skills_mount =
     \<lparr>skills = [], sk_isLoading = True, sk_isModalOpen = False, editingSkill = None,
      sk_isSubmitting = False, iconPreview = None, sk_searchQuery = [],
      sk_confirmDialog = (False, None), sk_form = skill_defaultValues, sk_errors = [],
      sk_log = []\<rparr>"

definition Skills_loadSkills :: "Skill list transport \<Rightarrow> SkillsPage \<Rightarrow> SkillsPage" where
  "Skills_loadSkills response s =
     (let (r, net) = skillsService_getAll response (sk_log s);
          s1 = s\<lparr>sk_log := net\<rparr>;
          s2 = (case r of
                  Inr d \<Rightarrow> s1\<lparr>skills := d\<rparr>
                | Inl err \<Rightarrow> s1\<lparr>sk_log := sk_log s1 @ [ToastError ''Failed to load skills'']\<rparr>)
      in s2\<lparr>sk_isLoading := False\<rparr>)"

definition Skills_handleOpenModal :: "Skill option \<Rightarrow> SkillsPage \<Rightarrow> SkillsPage" where
  "Skills_handleOpenModal skill s =
     (case skill of
        Some sk \<Rightarrow>
          s\<lparr>editingSkill := Some sk, sk_form := (sk_form s)\<lparr>sfd_name := skill_name sk\<rparr>,
            iconPreview := Some (skill_icon sk), sk_isModalOpen := True\<rparr>
      | None \<Rightarrow>
          s\<lparr>editingSkill := None, sk_form := skill_defaultValues, sk_errors := [],
            iconPreview := None, sk_isModalOpen := True\<rparr>)"

definition Skills_handleCloseModal :: "SkillsPage \<Rightarrow> SkillsPage" where
  "Skills_handleCloseModal s =
     s\<lparr>sk_isModalOpen := False, editingSkill := None, sk_form := skill_defaultValues,
       sk_errors := [], iconPreview := None\<rparr>"

text \<open>\<open>data.icon && data.icon[0]\<close>: the first file of the list, if there is one.\<close>

definition first_file :: "File list option \<Rightarrow> File option" where
  "first_file fl = (case fl of None \<Rightarrow> None | Some [] \<Rightarrow> None | Some (f # fs) \<Rightarrow> Some f)"

text \<open>
  Lines 92 to 101 of \<open>onSubmit\<close>: the mutation, its notification, the refetch and the
  closing of the modal. The result says whether the \<open>try\<close> block threw.
\<close>

definition Skills_onSubmit_send ::
  "Skill transport \<Rightarrow> Skill list transport \<Rightarrow> FormData \<Rightarrow> SkillsPage \<Rightarrow> thrown option \<times> SkillsPage" where
  "Skills_onSubmit_send mutation refetch formData s =
     (case editingSkill s of
        Some sk \<Rightarrow>
          (let (r, net) = skillsService_update (skill_id sk) formData mutation (sk_log s)
           in case r of
                Inl err \<Rightarrow> (Some err, s\<lparr>sk_log := net\<rparr>)
              | Inr d \<Rightarrow>
                  (None, Skills_handleCloseModal (Skills_loadSkills refetch
                     (s\<lparr>sk_log := net @ [ToastSuccess ''Skill updated successfully'']\<rparr>))))
      | None \<Rightarrow>
          (let (r, net) = skillsService_create formData mutation (sk_log s)
           in case r of
                Inl err \<Rightarrow> (Some err, s\<lparr>sk_log := net\<rparr>)
              | Inr d \<Rightarrow>
                  (None, Skills_handleCloseModal (Skills_loadSkills refetch
                     (s\<lparr>sk_log := net @ [ToastSuccess ''Skill created successfully'']\<rparr>)))))"

text \<open>The \<open>try\<close> block of \<open>onSubmit\<close>.\<close>

definition Skills_onSubmit_try ::
  "imageCompression \<Rightarrow> int \<Rightarrow> Skill transport \<Rightarrow> Skill list transport \<Rightarrow> SkillFormData \<Rightarrow> SkillsPage
     \<Rightarrow> thrown option \<times> SkillsPage" where
  "Skills_onSubmit_try ic now mutation refetch d s =
     (case first_file (sfd_icon d) of
        Some f \<Rightarrow>
          (case compressImage ic now f no_options of
             Inl err \<Rightarrow> (Some err, s)
           | Inr compressedIcon \<Rightarrow>
               Skills_onSubmit_send mutation refetch
                 [(''name'', Str (sfd_name d)), (''icon'', Blob compressedIcon)] s)
      | None \<Rightarrow>
          (if editingSkill s = None
           then (None, s\<lparr>sk_log := sk_log s @ [ToastError ''Icon is required for new skills'']\<rparr>)
           else Skills_onSubmit_send mutation refetch [(''name'', Str (sfd_name d))] s))"

text \<open>\<open>onSubmit\<close>: the \<open>catch\<close> shows the message, the \<open>finally\<close> clears the flag.\<close>

definition Skills_onSubmit ::
  "imageCompression \<Rightarrow> int \<Rightarrow> Skill transport \<Rightarrow> Skill list transport \<Rightarrow> SkillFormData \<Rightarrow> SkillsPage
     \<Rightarrow> SkillsPage" where
  "Skills_onSubmit ic now mutation refetch d s =
     (let (t, s1) = Skills_onSubmit_try ic now mutation refetch d (s\<lparr>sk_isSubmitting := True\<rparr>);
          s2 = (case t of
                  Some msg \<Rightarrow> s1\<lparr>sk_log := sk_log s1 @ [ToastError msg]\<rparr>
                | None \<Rightarrow> s1)
      in s2\<lparr>sk_isSubmitting := False\<rparr>)"

text \<open>
  \<open>handleSubmit(onSubmit)\<close>: the schema runs on the form values; \<open>onSubmit\<close> is called
  only when there is no issue.
\<close>

definition Skills_handleSubmit ::
  "imageCompression \<Rightarrow> int \<Rightarrow> Skill transport \<Rightarrow> Skill list transport \<Rightarrow> SkillsPage \<Rightarrow> SkillsPage" where
  "Skills_handleSubmit ic now mutation refetch s =
     (case skillSchema (sk_form s) of
        [] \<Rightarrow> Skills_onSubmit ic now mutation refetch (sk_form s) (s\<lparr>sk_errors := []\<rparr>)
      | i # rest \<Rightarrow> s\<lparr>sk_errors := i # rest\<rparr>)"

definition Skills_setSearchQuery :: "string \<Rightarrow> SkillsPage \<Rightarrow> SkillsPage" where
  "Skills_setSearchQuery q s = s\<lparr>sk_searchQuery := q\<rparr>"

definition filteredSkills :: "SkillsPage \<Rightarrow> Skill list" where
  "filteredSkills s =
     filter (\<lambda>skill. includes_str (toLowerCase (skill_name skill)) (toLowerCase (sk_searchQuery s)))
       (skills s)"

section \<open>pages/Experience\<close>

text \<open>
  The raw values of the experience form. A number input read with \<open>valueAsNumber\<close>
  gives \<open>NaN\<close> when it is empty: that is \<open>None\<close> for \<open>startYear\<close>. For \<open>endYear\<close>,
  \<open>None\<close> is \<open>null\<close>. \<open>ExperienceFormData\<close> is what the schema yields when it accepts.
\<close>

record ExperienceFormValues =
  efv_startYear :: "int option"
  efv_endYear :: "int option"
  efv_companyName :: string
  efv_description :: "string option"
  efv_location :: string
  efv_skillIds :: "string list option"

record ExperienceFormData =
  efd_startYear :: int
  efd_endYear :: "int option"
  efd_companyName :: string
  efd_description :: "string option"
  efd_location :: string
  efd_skillIds :: "string list option"

text \<open>\<open>currentYear\<close> is \<open>new Date().getFullYear()\<close>.\<close>

definition experienceSchema :: "int \<Rightarrow> ExperienceFormValues \<Rightarrow> issue list + ExperienceFormData" where
  "experienceSchema currentYear v =
     (let issues =
        (case efv_startYear v of
           None \<Rightarrow> [(''startYear'', None)]
         | Some y \<Rightarrow>
             (if y < 1900 then [(''startYear'', Some ''Invalid year'')]
              else if y > currentYear + 10 then [(''startYear'', None)] else [])) @
        (case efv_endYear v of
           None \<Rightarrow> []
         | Some y \<Rightarrow> (if y < 1900 \<or> y > currentYear + 10 then [(''endYear'', None)] else [])) @
        (if length (efv_companyName v) < 1
         then [(''companyName'', Some ''Company name is required'')] else []) @
        (if length (efv_location v) < 1
         then [(''location'', Some ''Location is required'')] else [])
      in case (issues, efv_startYear v) of
           ([], Some y) \<Rightarrow>
             Inr \<lparr>efd_startYear = y, efd_endYear = efv_endYear v,
                  efd_companyName = efv_companyName v, efd_description = efv_description v,
                  efd_location = efv_location v, efd_skillIds = efv_skillIds v\<rparr>
         | _ \<Rightarrow> Inl issues)"

text \<open>
  The component state of \<open>ExperiencePage\<close>. \<open>ex_resetValues\<close> holds the values that
  \<open>reset()\<close> returns the form to: the defaults given to \<open>useForm\<close>, replaced by the
  values of the last \<open>reset(values)\<close>.
\<close>

record ExperiencePage =
  experiences :: "Experience list"
  ex_skills :: "Skill list"
  ex_isLoading :: bool
  ex_isModalOpen :: bool
  editingExperience :: "Experience option"
  ex_isSubmitting :: bool
  isCurrentJob :: bool
  ex_searchQuery :: string
  ex_confirmDialog :: "bool \<times> string option"
  ex_form :: ExperienceFormValues
  ex_resetValues :: ExperienceFormValues
  ex_errors :: "issue list"
  ex_log :: "event list"

definition experience_defaultValues :: ExperienceFormValues where
  "experience_defaultValues =
     \<lparr>efv_startYear = None, efv_endYear = None, efv_companyName = [], efv_description = None,
      efv_location = [], efv_skillIds = Some []\<rparr>"

definition ExperiencePage_mount :: ExperiencePage where
  "ExperiencePage_mount =
     \<lparr>experiences = [], ex_skills = [], ex_isLoading = True, ex_isModalOpen = False,
      editingExperience = None, ex_isSubmitting = False, isCurrentJob = False,
      ex_searchQuery = [], ex_confirmDialog = (False, None), ex_form = experience_defaultValues, ex_resetValues = experience_defaultValues,
      ex_errors = [], ex_log = []\<rparr>"

text \<open>
  \<open>loadData\<close>: \<open>Promise.all\<close> starts both requests before either answer is looked at,
  and rejects when one of them does.
\<close>

definition ExperiencePage_loadData ::
  "Experience list transport \<Rightarrow> Skill list transport \<Rightarrow> ExperiencePage \<Rightarrow> ExperiencePage" where
  "ExperiencePage_loadData response skillsResponse s =
     (let (r1, net1) = experienceService_getAll response (ex_log s);
          (r2, net2) = skillsService_getAll skillsResponse net1;
          s1 = s\<lparr>ex_log := net2\<rparr>;
          failed = s1\<lparr>ex_log := ex_log s1 @ [ToastError ''Failed to load data'']\<rparr>;
          s2 = (case r1 of
                  Inl err \<Rightarrow> failed
                | Inr experiencesData \<Rightarrow>
                    (case r2 of
                       Inl err \<Rightarrow> failed
                     | Inr skillsData \<Rightarrow>
                         s1\<lparr>experiences := experiencesData, ex_skills := skillsData\<rparr>))
      in s2\<lparr>ex_isLoading := False\<rparr>)"

definition ExperiencePage_handleOpenModal :: "int \<Rightarrow> Experience option \<Rightarrow> ExperiencePage \<Rightarrow> ExperiencePage" where
  "ExperiencePage_handleOpenModal currentYear experience s =
     (case experience of
        Some e \<Rightarrow>
          s\<lparr>editingExperience := Some e,
            ex_form :=
              \<lparr>efv_startYear = Some (exp_startYear e), efv_endYear = exp_endYear e,
               efv_companyName = exp_companyName e,
               efv_description = Some (case exp_description e of None \<Rightarrow> [] | Some d \<Rightarrow> d),
               efv_location = exp_location e,
               efv_skillIds =
                 Some (case experienceSkills e of None \<Rightarrow> [] | Some es \<Rightarrow> map skill_id es)\<rparr>,
            isCurrentJob := (exp_endYear e = None), ex_isModalOpen := True\<rparr>
      | None \<Rightarrow>
          s\<lparr>editingExperience := None,
            ex_form :=
              \<lparr>efv_startYear = Some currentYear, efv_endYear = None, efv_companyName = [],
               efv_description = Some [], efv_location = [], efv_skillIds = Some []\<rparr>,
            ex_resetValues :=
              \<lparr>efv_startYear = Some currentYear, efv_endYear = None, efv_companyName = [],
               efv_description = Some [], efv_location = [], efv_skillIds = Some []\<rparr>,
            ex_errors := [], isCurrentJob := False, ex_isModalOpen := True\<rparr>)"

definition ExperiencePage_handleCloseModal :: "ExperiencePage \<Rightarrow> ExperiencePage" where
  "ExperiencePage_handleCloseModal s =
     s\<lparr>ex_isModalOpen := False, editingExperience := None, ex_form := ex_resetValues s,
       ex_errors := [], isCurrentJob := False\<rparr>"

text \<open>The \<open>payload\<close> of \<open>onSubmit\<close>: the data with \<open>endYear\<close> overridden.\<close>

definition ExperiencePage_payload :: "bool \<Rightarrow> ExperienceFormData \<Rightarrow> ExperienceCreateData" where
  "ExperiencePage_payload current d =
     \<lparr>ecd_startYear = efd_startYear d,
      ecd_endYear = (if current then None else efd_endYear d),
      ecd_companyName = efd_companyName d, ecd_description = efd_description d,
      ecd_location = efd_location d, ecd_skillIds = efd_skillIds d\<rparr>"

text \<open>The \<open>try\<close> block of \<open>onSubmit\<close>.\<close>

definition ExperiencePage_onSubmit_try ::
  "Experience transport \<Rightarrow> Experience list transport \<Rightarrow> Skill list transport \<Rightarrow> ExperienceFormData
     \<Rightarrow> ExperiencePage \<Rightarrow> thrown option \<times> ExperiencePage" where
  "ExperiencePage_onSubmit_try mutation refetch refetchSkills d s =
     (let payload = ExperiencePage_payload (isCurrentJob s) d
      in case editingExperience s of
           Some e \<Rightarrow>
             (let (r, net) = experienceService_update (exp_id e) payload mutation (ex_log s)
              in case r of
                   Inl err \<Rightarrow> (Some err, s\<lparr>ex_log := net\<rparr>)
                 | Inr x \<Rightarrow>
                     (None, ExperiencePage_handleCloseModal (ExperiencePage_loadData refetch refetchSkills
                        (s\<lparr>ex_log := net @ [ToastSuccess ''Experience updated successfully'']\<rparr>))))
         | None \<Rightarrow>
             (let (r, net) = experienceService_create payload mutation (ex_log s)
              in case r of
                   Inl err \<Rightarrow> (Some err, s\<lparr>ex_log := net\<rparr>)
                 | Inr x \<Rightarrow>
                     (None, ExperiencePage_handleCloseModal (ExperiencePage_loadData refetch refetchSkills
                        (s\<lparr>ex_log := net @ [ToastSuccess ''Experience created successfully'']\<rparr>)))))"

definition ExperiencePage_onSubmit ::
  "Experience transport \<Rightarrow> Experience list transport \<Rightarrow> Skill list transport \<Rightarrow> ExperienceFormData
     \<Rightarrow> ExperiencePage \<Rightarrow> ExperiencePage" where
  "ExperiencePage_onSubmit mutation refetch refetchSkills d s =
     (let (t, s1) = ExperiencePage_onSubmit_try mutation refetch refetchSkills d
                      (s\<lparr>ex_isSubmitting := True\<rparr>);
          s2 = (case t of
                  Some msg \<Rightarrow> s1\<lparr>ex_log := ex_log s1 @ [ToastError msg]\<rparr>
                | None \<Rightarrow> s1)
      in s2\<lparr>ex_isSubmitting := False\<rparr>)"

definition ExperiencePage_handleSubmit ::
  "int \<Rightarrow> Experience transport \<Rightarrow> Experience list transport \<Rightarrow> Skill list transport
     \<Rightarrow> ExperiencePage \<Rightarrow> ExperiencePage" where
  "ExperiencePage_handleSubmit currentYear mutation refetch refetchSkills s =
     (case experienceSchema currentYear (ex_form s) of
        Inr d \<Rightarrow> ExperiencePage_onSubmit mutation refetch refetchSkills d (s\<lparr>ex_errors := []\<rparr>)
      | Inl issues \<Rightarrow> s\<lparr>ex_errors := issues\<rparr>)"

definition ExperiencePage_setSearchQuery :: "string \<Rightarrow> ExperiencePage \<Rightarrow> ExperiencePage" where
  "ExperiencePage_setSearchQuery q s = s\<lparr>ex_searchQuery := q\<rparr>"

text \<open>
  \<open>exp.description && exp.description.toLowerCase().includes(...)\<close>: a \<open>null\<close> or empty
  description is falsy and ends the conjunction.
\<close>

definition filteredExperiences :: "ExperiencePage \<Rightarrow> Experience list" where
  "filteredExperiences s =
     filter (\<lambda>e.
        includes_str (toLowerCase (exp_companyName e)) (toLowerCase (ex_searchQuery s)) \<or>
        includes_str (toLowerCase (exp_location e)) (toLowerCase (ex_searchQuery s)) \<or>
        (case exp_description e of
           None \<Rightarrow> False
         | Some d \<Rightarrow> d \<noteq> [] \<and> includes_str (toLowerCase d) (toLowerCase (ex_searchQuery s))))
       (experiences s)"

section \<open>pages/Certifications\<close>

record CertificationFormValues =
  cfv_name :: string
  cfv_issuingOrganization :: string
  cfv_year :: "int option"
  cfv_description :: "string option"
  cfv_certificateLink :: "string option"
  cfv_skillIds :: "string list option"

record CertificationFormData =
  cfd_name :: string
  cfd_issuingOrganization :: string
  cfd_year :: int
  cfd_description :: "string option"
  cfd_certificateLink :: "string option"
  cfd_skillIds :: "string list option"

text \<open>
  \<open>z.string().url('Invalid URL').optional().or(z.literal(''))\<close>: the first member of
  the union takes \<open>undefined\<close> and the strings the library's URL check accepts, the
  second takes the empty string. The URL check is the parameter \<open>is_url\<close>.
\<close>

definition certificateLink_accepted :: "(string \<Rightarrow> bool) \<Rightarrow> string option \<Rightarrow> bool" where
  "certificateLink_accepted is_url l =
     (case l of None \<Rightarrow> True | Some u \<Rightarrow> is_url u \<or> u = [])"

definition certificationSchema ::
  "(string \<Rightarrow> bool) \<Rightarrow> int \<Rightarrow> CertificationFormValues \<Rightarrow> issue list + CertificationFormData" where
  "certificationSchema is_url currentYear v =
     (let issues =
        (if length (cfv_name v) < 1 then [(''name'', Some ''Name is required'')] else []) @
        (if length (cfv_issuingOrganization v) < 1
         then [(''issuingOrganization'', Some ''Issuing organization is required'')] else []) @
        (case cfv_year v of
           None \<Rightarrow> [(''year'', None)]
         | Some y \<Rightarrow> (if y < 1900 \<or> y > currentYear + 10 then [(''year'', None)] else [])) @
        (if certificateLink_accepted is_url (cfv_certificateLink v) then []
         else [(''certificateLink'', Some ''Invalid URL'')])
      in case (issues, cfv_year v) of
           ([], Some y) \<Rightarrow>
             Inr \<lparr>cfd_name = cfv_name v, cfd_issuingOrganization = cfv_issuingOrganization v,
                  cfd_year = y, cfd_description = cfv_description v,
                  cfd_certificateLink = cfv_certificateLink v, cfd_skillIds = cfv_skillIds v\<rparr>
         | _ \<Rightarrow> Inl issues)"

text \<open>
  The component state; \<open>ce_resetValues\<close> holds the values \<open>reset()\<close> returns to.
\<close>

record CertificationsPage =
  certifications :: "Certification list"
  ce_skills :: "Skill list"
  ce_isLoading :: bool
  ce_isModalOpen :: bool
  editingCertification :: "Certification option"
  ce_isSubmitting :: bool
  ce_searchQuery :: string
  ce_confirmDialog :: "bool \<times> string option"
  ce_form :: CertificationFormValues
  ce_resetValues :: CertificationFormValues
  ce_errors :: "issue list"
  ce_log :: "event list"

definition certification_defaultValues :: CertificationFormValues where
  "certification_defaultValues =
     \<lparr>cfv_name = [], cfv_issuingOrganization = [], cfv_year = None, cfv_description = None,
      cfv_certificateLink = Some [], cfv_skillIds = Some []\<rparr>"

definition CertificationsPage_mount :: CertificationsPage where
  "CertificationsPage_mount =
     \<lparr>certifications = [], ce_skills = [], ce_isLoading = True, ce_isModalOpen = False,
      editingCertification = None, ce_isSubmitting = False, ce_searchQuery = [],
      ce_confirmDialog = (False, None), ce_form = certification_defaultValues, ce_resetValues = certification_defaultValues, ce_errors = [],
      ce_log = []\<rparr>"

definition CertificationsPage_loadData ::
  "Certification list transport \<Rightarrow> Skill list transport \<Rightarrow> CertificationsPage \<Rightarrow> CertificationsPage" where
  "CertificationsPage_loadData response skillsResponse s =
     (let (r1, net1) = certificationsService_getAll response (ce_log s);
          (r2, net2) = skillsService_getAll skillsResponse net1;
          s1 = s\<lparr>ce_log := net2\<rparr>;
          failed = s1\<lparr>ce_log := ce_log s1 @ [ToastError ''Failed to load data'']\<rparr>;
          s2 = (case r1 of
                  Inl err \<Rightarrow> failed
                | Inr certificationsData \<Rightarrow>
                    (case r2 of
                       Inl err \<Rightarrow> failed
                     | Inr skillsData \<Rightarrow>
                         s1\<lparr>certifications := certificationsData, ce_skills := skillsData\<rparr>))
      in s2\<lparr>ce_isLoading := False\<rparr>)"

definition CertificationsPage_handleOpenModal ::
  "int \<Rightarrow> Certification option \<Rightarrow> CertificationsPage \<Rightarrow> CertificationsPage" where
  "CertificationsPage_handleOpenModal currentYear cert s =
     (case cert of
        Some c \<Rightarrow>
          s\<lparr>editingCertification := Some c,
            ce_form :=
              \<lparr>cfv_name = cert_name c, cfv_issuingOrganization = cert_issuingOrganization c,
               cfv_year = Some (cert_year c),
               cfv_description = Some (case cert_description c of None \<Rightarrow> [] | Some d \<Rightarrow> d),
               cfv_certificateLink =
                 Some (case cert_certificateLink c of None \<Rightarrow> [] | Some l \<Rightarrow> l),
               cfv_skillIds =
                 Some (case certificationSkills c of None \<Rightarrow> [] | Some cs \<Rightarrow> map skill_id cs)\<rparr>,
            ce_isModalOpen := True\<rparr>
      | None \<Rightarrow>
          s\<lparr>editingCertification := None,
            ce_form :=
              \<lparr>cfv_name = [], cfv_issuingOrganization = [], cfv_year = Some currentYear,
               cfv_description = Some [], cfv_certificateLink = Some [], cfv_skillIds = Some []\<rparr>,
            ce_resetValues :=
              \<lparr>cfv_name = [], cfv_issuingOrganization = [], cfv_year = Some currentYear,
               cfv_description = Some [], cfv_certificateLink = Some [], cfv_skillIds = Some []\<rparr>,
            ce_errors := [], ce_isModalOpen := True\<rparr>)"

definition CertificationsPage_handleCloseModal :: "CertificationsPage \<Rightarrow> CertificationsPage" where
  "CertificationsPage_handleCloseModal s =
     s\<lparr>ce_isModalOpen := False, editingCertification := None,
       ce_form := ce_resetValues s, ce_errors := []\<rparr>"

text \<open>
  The \<open>payload\<close> of \<open>onSubmit\<close>: \<open>data.certificateLink || undefined\<close> turns the
  empty string into a missing key.
\<close>

definition CertificationsPage_payload :: "CertificationFormData \<Rightarrow> CertificationCreateData" where
  "CertificationsPage_payload d =
     \<lparr>ccd_name = cfd_name d, ccd_issuingOrganization = cfd_issuingOrganization d,
      ccd_year = cfd_year d, ccd_description = cfd_description d,
      ccd_certificateLink =
        (case cfd_certificateLink d of
           None \<Rightarrow> None
         | Some l \<Rightarrow> (if l = [] then None else Some l)),
      ccd_skillIds = cfd_skillIds d\<rparr>"

definition CertificationsPage_onSubmit_try ::
  "Certification transport \<Rightarrow> Certification list transport \<Rightarrow> Skill list transport
     \<Rightarrow> CertificationFormData \<Rightarrow> CertificationsPage \<Rightarrow> thrown option \<times> CertificationsPage" where
  "CertificationsPage_onSubmit_try mutation refetch refetchSkills d s =
     (let payload = CertificationsPage_payload d
      in case editingCertification s of
           Some c \<Rightarrow>
             (let (r, net) = certificationsService_update (cert_id c) payload mutation (ce_log s)
              in case r of
                   Inl err \<Rightarrow> (Some err, s\<lparr>ce_log := net\<rparr>)
                 | Inr x \<Rightarrow>
                     (None, CertificationsPage_handleCloseModal
                        (CertificationsPage_loadData refetch refetchSkills
                          (s\<lparr>ce_log := net @ [ToastSuccess ''Certification updated successfully'']\<rparr>))))
         | None \<Rightarrow>
             (let (r, net) = certificationsService_create payload mutation (ce_log s)
              in case r of
                   Inl err \<Rightarrow> (Some err, s\<lparr>ce_log := net\<rparr>)
                 | Inr x \<Rightarrow>
                     (None, CertificationsPage_handleCloseModal
                        (CertificationsPage_loadData refetch refetchSkills
                          (s\<lparr>ce_log := net @ [ToastSuccess ''Certification created successfully'']\<rparr>)))))"

definition CertificationsPage_onSubmit ::
  "Certification transport \<Rightarrow> Certification list transport \<Rightarrow> Skill list transport
     \<Rightarrow> CertificationFormData \<Rightarrow> CertificationsPage \<Rightarrow> CertificationsPage" where
  "CertificationsPage_onSubmit mutation refetch refetchSkills d s =
     (let (t, s1) = CertificationsPage_onSubmit_try mutation refetch refetchSkills d
                      (s\<lparr>ce_isSubmitting := True\<rparr>);
          s2 = (case t of
                  Some msg \<Rightarrow> s1\<lparr>ce_log := ce_log s1 @ [ToastError msg]\<rparr>
                | None \<Rightarrow> s1)
      in s2\<lparr>ce_isSubmitting := False\<rparr>)"

definition CertificationsPage_handleSubmit ::
  "(string \<Rightarrow> bool) \<Rightarrow> int \<Rightarrow> Certification transport \<Rightarrow> Certification list transport
     \<Rightarrow> Skill list transport \<Rightarrow> CertificationsPage \<Rightarrow> CertificationsPage" where
  "CertificationsPage_handleSubmit is_url currentYear mutation refetch refetchSkills s =
     (case certificationSchema is_url currentYear (ce_form s) of
        Inr d \<Rightarrow> CertificationsPage_onSubmit mutation refetch refetchSkills d (s\<lparr>ce_errors := []\<rparr>)
      | Inl issues \<Rightarrow> s\<lparr>ce_errors := issues\<rparr>)"

definition CertificationsPage_setSearchQuery :: "string \<Rightarrow> CertificationsPage \<Rightarrow> CertificationsPage" where
  "CertificationsPage_setSearchQuery q s = s\<lparr>ce_searchQuery := q\<rparr>"

definition filteredCertifications :: "CertificationsPage \<Rightarrow> Certification list" where
  "filteredCertifications s =
     filter (\<lambda>cert.
        includes_str (toLowerCase (cert_name cert)) (toLowerCase (ce_searchQuery s)) \<or>
        includes_str (toLowerCase (cert_issuingOrganization cert)) (toLowerCase (ce_searchQuery s)) \<or>
        (case cert_description cert of
           None \<Rightarrow> False
         | Some d \<Rightarrow> d \<noteq> [] \<and> includes_str (toLowerCase d) (toLowerCase (ce_searchQuery s))))
       (certifications s)"

section \<open>pages/Education\<close>

text \<open>
  The form data of the education form has the shape of the service's argument and is
  passed to it as it is.
\<close>

definition educationSchema :: "EducationCreateData \<Rightarrow> issue list" where
  "educationSchema d =
     (if length (ed_year d) < 1 then [(''year'', Some ''Year is required'')] else []) @
     (if length (ed_institutionName d) < 1
      then [(''institutionName'', Some ''Institution name is required'')] else [])"

record EducationPage =
  education :: "Education list"
  ed_isLoading :: bool
  ed_isModalOpen :: bool
  editingEducation :: "Education option"
  ed_isSubmitting :: bool
  ed_searchQuery :: string
  ed_confirmDialog :: "bool \<times> string option"
  ed_form :: EducationCreateData
  ed_errors :: "issue list"
  ed_log :: "event list"

definition education_defaultValues :: EducationCreateData where
  "education_defaultValues = \<lparr>ed_year = [], ed_institutionName = [], ed_description = None\<rparr>"

definition EducationPage_mount :: EducationPage where
  "EducationPage_mount =
     \<lparr>education = [], ed_isLoading = True, ed_isModalOpen = False, editingEducation = None,
      ed_isSubmitting = False, ed_searchQuery = [], ed_confirmDialog = (False, None),
      ed_form = education_defaultValues, ed_errors = [], ed_log = []\<rparr>"

definition EducationPage_loadEducation :: "Education list transport \<Rightarrow> EducationPage \<Rightarrow> EducationPage" where
  "EducationPage_loadEducation response s =
     (let (r, net) = educationService_getAll response (ed_log s);
          s1 = s\<lparr>ed_log := net\<rparr>;
          s2 = (case r of
                  Inr d \<Rightarrow> s1\<lparr>education := d\<rparr>
                | Inl err \<Rightarrow> s1\<lparr>ed_log := ed_log s1 @ [ToastError ''Failed to load education'']\<rparr>)
      in s2\<lparr>ed_isLoading := False\<rparr>)"

definition EducationPage_handleCloseModal :: "EducationPage \<Rightarrow> EducationPage" where
  "EducationPage_handleCloseModal s =
     s\<lparr>ed_isModalOpen := False, editingEducation := None, ed_form := education_defaultValues,
       ed_errors := []\<rparr>"

definition EducationPage_onSubmit_try ::
  "Education transport \<Rightarrow> Education list transport \<Rightarrow> EducationCreateData \<Rightarrow> EducationPage
     \<Rightarrow> thrown option \<times> EducationPage" where
  "EducationPage_onSubmit_try mutation refetch d s =
     (case editingEducation s of
        Some e \<Rightarrow>
          (let (r, net) = educationService_update (edu_id e) d mutation (ed_log s)
           in case r of
                Inl err \<Rightarrow> (Some err, s\<lparr>ed_log := net\<rparr>)
              | Inr x \<Rightarrow>
                  (None, EducationPage_handleCloseModal (EducationPage_loadEducation refetch
                     (s\<lparr>ed_log := net @ [ToastSuccess ''Education updated successfully'']\<rparr>))))
      | None \<Rightarrow>
          (let (r, net) = educationService_create d mutation (ed_log s)
           in case r of
                Inl err \<Rightarrow> (Some err, s\<lparr>ed_log := net\<rparr>)
              | Inr x \<Rightarrow>
                  (None, EducationPage_handleCloseModal (EducationPage_loadEducation refetch
                     (s\<lparr>ed_log := net @ [ToastSuccess ''Education created successfully'']\<rparr>)))))"

definition EducationPage_onSubmit ::
  "Education transport \<Rightarrow> Education list transport \<Rightarrow> EducationCreateData \<Rightarrow> EducationPage
     \<Rightarrow> EducationPage" where
  "EducationPage_onSubmit mutation refetch d s =
     (let (t, s1) = EducationPage_onSubmit_try mutation refetch d (s\<lparr>ed_isSubmitting := True\<rparr>);
          s2 = (case t of
                  Some msg \<Rightarrow> s1\<lparr>ed_log := ed_log s1 @ [ToastError msg]\<rparr>
                | None \<Rightarrow> s1)
      in s2\<lparr>ed_isSubmitting := False\<rparr>)"

section \<open>pages/Projects\<close>

record ProjectFormData =
  pfd_title :: string
  pfd_slug :: string
  pfd_description :: string
  pfd_content :: string
  pfd_coverImage :: "File list option"
  pfd_publishedAt :: "string option"
  pfd_published :: "bool option"
  pfd_skillIds :: "string list option"

text \<open>
  The component state; \<open>pr_resetValues\<close> holds the values \<open>reset()\<close> returns to (the
  defaults of \<open>useForm\<close>, replaced by the values that opening the modal for a new
  project resets the form with).
\<close>

record ProjectsPage =
  projects :: "Project list"
  pr_skills :: "Skill list"
  pr_isLoading :: bool
  pr_isModalOpen :: bool
  editingProject :: "Project option"
  pr_isSubmitting :: bool
  coverPreview :: "string option"
  previewImages :: "string list"
  previewFiles :: "File list"
  pr_searchQuery :: string
  pr_confirmDialog :: "bool \<times> string option"
  pr_form :: ProjectFormData
  pr_resetValues :: ProjectFormData
  pr_errors :: "issue list"
  pr_log :: "event list"

definition project_defaultValues :: ProjectFormData where
  "project_defaultValues =
     \<lparr>pfd_title = [], pfd_slug = [], pfd_description = [], pfd_content = [],
      pfd_coverImage = None, pfd_publishedAt = None, pfd_published = None,
      pfd_skillIds = Some []\<rparr>"

definition Projects_mount :: ProjectsPage where
  "Projects_mount =
     \<lparr>projects = [], pr_skills = [], pr_isLoading = True, pr_isModalOpen = False,
      editingProject = None, pr_isSubmitting = False, coverPreview = None, previewImages = [],
      previewFiles = [], pr_searchQuery = [], pr_confirmDialog = (False, None),
      pr_form = project_defaultValues, pr_resetValues = project_defaultValues, pr_errors = [], pr_log = []\<rparr>"

definition Projects_loadData ::
  "Project list transport \<Rightarrow> Skill list transport \<Rightarrow> ProjectsPage \<Rightarrow> ProjectsPage" where
  "Projects_loadData response skillsResponse s =
     (let (r1, net1) = projectsService_getAll response (pr_log s);
          (r2, net2) = skillsService_getAll skillsResponse net1;
          s1 = s\<lparr>pr_log := net2\<rparr>;
          failed = s1\<lparr>pr_log := pr_log s1 @ [ToastError ''Failed to load data'']\<rparr>;
          s2 = (case r1 of
                  Inl err \<Rightarrow> failed
                | Inr projectsData \<Rightarrow>
                    (case r2 of
                       Inl err \<Rightarrow> failed
                     | Inr skillsData \<Rightarrow> s1\<lparr>projects := projectsData, pr_skills := skillsData\<rparr>))
      in s2\<lparr>pr_isLoading := False\<rparr>)"

definition Projects_handleCloseModal :: "ProjectsPage \<Rightarrow> ProjectsPage" where
  "Projects_handleCloseModal s =
     s\<lparr>pr_isModalOpen := False, editingProject := None, pr_form := pr_resetValues s,
       pr_errors := [], coverPreview := None, previewImages := [], previewFiles := []\<rparr>"

text \<open>
  The loop over \<open>previewFiles\<close>: each file is compressed and appended under
  \<open>contentImages\<close>. One reading of the clock serves all the files.
\<close>

fun compress_contentImages :: "imageCompression \<Rightarrow> int \<Rightarrow> File list \<Rightarrow> thrown + FormData" where
  "compress_contentImages ic now [] = Inr []"
| "compress_contentImages ic now (file # files) =
     (case compressImage ic now file no_options of
        Inl err \<Rightarrow> Inl err
      | Inr compressedFile \<Rightarrow>
          (case compress_contentImages ic now files of
             Inl err \<Rightarrow> Inl err
           | Inr rest \<Rightarrow> Inr ((''contentImages'', Blob compressedFile) # rest)))"

text \<open>
  The form data that \<open>onSubmit\<close> builds before the call. \<open>isoNow\<close> is
  \<open>new Date().toISOString()\<close> and \<open>JSON_stringify\<close> serialises the list of kept images.
\<close>

definition Projects_formData ::
  "imageCompression \<Rightarrow> int \<Rightarrow> string \<Rightarrow> (string list \<Rightarrow> string) \<Rightarrow> ProjectFormData \<Rightarrow> ProjectsPage
     \<Rightarrow> thrown + FormData" where
  "Projects_formData ic now isoNow JSON_stringify d s =
     (let fd1 =
            [(''title'', Str (pfd_title d)), (''slug'', Str (pfd_slug d)),
             (''description'', Str (pfd_description d)), (''content'', Str (pfd_content d)),
             (''published'', Str (if pfd_published d = Some True then ''true'' else ''false''))] @
            (if pfd_published d = Some True then [(''publishedAt'', Str isoNow)] else []) @
            (case pfd_skillIds d of
               None \<Rightarrow> []
             | Some ids \<Rightarrow> map (\<lambda>skillId. (''skillIds[]'', Str skillId)) ids);
          existing =
            (case editingProject s of
               None \<Rightarrow> []
             | Some p \<Rightarrow>
                 [(''existingContentImages'',
                   Str (JSON_stringify (take (length (proj_contentImages p)) (previewImages s))))])
      in case (case first_file (pfd_coverImage d) of
                 None \<Rightarrow> Inr []
               | Some f \<Rightarrow>
                   (case compressImage ic now f no_options of
                      Inl err \<Rightarrow> Inl err
                    | Inr compressedCover \<Rightarrow> Inr [(''coverImage'', Blob compressedCover)]))
         of Inl err \<Rightarrow> Inl err
          | Inr cover \<Rightarrow>
              (case compress_contentImages ic now (previewFiles s) of
                 Inl err \<Rightarrow> Inl err
               | Inr images \<Rightarrow> Inr (fd1 @ cover @ existing @ images)))"

definition Projects_onSubmit_try ::
  "imageCompression \<Rightarrow> int \<Rightarrow> string \<Rightarrow> (string list \<Rightarrow> string) \<Rightarrow> Project transport
     \<Rightarrow> Project list transport \<Rightarrow> Skill list transport \<Rightarrow> ProjectFormData \<Rightarrow> ProjectsPage
     \<Rightarrow> thrown option \<times> ProjectsPage" where
  "Projects_onSubmit_try ic now isoNow JSON_stringify mutation refetch refetchSkills d s =
     (case Projects_formData ic now isoNow JSON_stringify d s of
        Inl err \<Rightarrow> (Some err, s)
      | Inr formData \<Rightarrow>
          (case editingProject s of
             Some p \<Rightarrow>
               (let (r, net) = projectsService_update (proj_id p) formData mutation (pr_log s)
                in case r of
                     Inl err \<Rightarrow> (Some err, s\<lparr>pr_log := net\<rparr>)
                   | Inr x \<Rightarrow>
                       (None, Projects_handleCloseModal (Projects_loadData refetch refetchSkills
                          (s\<lparr>pr_log := net @ [ToastSuccess ''Project updated successfully'']\<rparr>))))
           | None \<Rightarrow>
               (let (r, net) = projectsService_create formData mutation (pr_log s)
                in case r of
                     Inl err \<Rightarrow> (Some err, s\<lparr>pr_log := net\<rparr>)
                   | Inr x \<Rightarrow>
                       (None, Projects_handleCloseModal (Projects_loadData refetch refetchSkills
                          (s\<lparr>pr_log := net @ [ToastSuccess ''Project created successfully'']\<rparr>))))))"

definition Projects_onSubmit ::
  "imageCompression \<Rightarrow> int \<Rightarrow> string \<Rightarrow> (string list \<Rightarrow> string) \<Rightarrow> Project transport
     \<Rightarrow> Project list transport \<Rightarrow> Skill list transport \<Rightarrow> ProjectFormData \<Rightarrow> ProjectsPage
     \<Rightarrow> ProjectsPage" where
  "Projects_onSubmit ic now isoNow JSON_stringify mutation refetch refetchSkills d s =
     (let (t, s1) = Projects_onSubmit_try ic now isoNow JSON_stringify mutation refetch refetchSkills d
                      (s\<lparr>pr_isSubmitting := True\<rparr>);
          s2 = (case t of
                  Some msg \<Rightarrow> s1\<lparr>pr_log := pr_log s1 @ [ToastError msg]\<rparr>
                | None \<Rightarrow> s1)
      in s2\<lparr>pr_isSubmitting := False\<rparr>)"

section \<open>pages/UserDetails\<close>

text \<open>The state of the social-media editor of the user-details page.\<close>

record UserDetailsPage =
  userDetails :: "UserDetails option"
  ud_isLoading :: bool
  photoPreview :: "string option"
  socialMedias :: "string list"
  newSocialMediaIcon :: string
  newSocialMediaUrl :: string
  ud_log :: "event list"

definition UserDetailsPage_mount :: UserDetailsPage where
  "UserDetailsPage_mount =
     \<lparr>userDetails = None, ud_isLoading = True, photoPreview = None, socialMedias = [],
      newSocialMediaIcon = [], newSocialMediaUrl = [], ud_log = []\<rparr>"

text \<open>
  \<open>loadUserDetails\<close>: the service answers \<open>null\<close> for a failing envelope, so only a
  rejected request reaches the \<open>catch\<close>.
\<close>

definition loadUserDetails :: "UserDetails transport \<Rightarrow> UserDetailsPage \<Rightarrow> UserDetailsPage" where
  "loadUserDetails response s =
     (let (r, net) = userDetailsService_get response (ud_log s);
          s1 = s\<lparr>ud_log := net\<rparr>;
          s2 = (case r of
                  Inr None \<Rightarrow> s1
                | Inr (Some d) \<Rightarrow>
                    s1\<lparr>userDetails := Some d,
                       socialMedias := (case ud_socialMedias d of None \<Rightarrow> [] | Some l \<Rightarrow> l),
                       photoPreview := ud_profilePhoto d\<rparr>
                | Inl err \<Rightarrow> s1\<lparr>ud_log := ud_log s1 @ [ToastError ''Failed to load user details'']\<rparr>)
      in s2\<lparr>ud_isLoading := False\<rparr>)"

definition handleAddSocialMedia :: "UserDetailsPage \<Rightarrow> UserDetailsPage" where
  "handleAddSocialMedia s =
     (if trim (newSocialMediaIcon s) \<noteq> [] \<and> trim (newSocialMediaUrl s) \<noteq> []
      then s\<lparr>socialMedias :=
               socialMedias s @ [trim (newSocialMediaIcon s) @ ''|'' @ trim (newSocialMediaUrl s)],
             newSocialMediaIcon := [], newSocialMediaUrl := []\<rparr>
      else s)"

text \<open>\<open>socialMedias.filter((_, i) => i !== index)\<close>.\<close>

definition handleRemoveSocialMedia :: "nat \<Rightarrow> UserDetailsPage \<Rightarrow> UserDetailsPage" where
  "handleRemoveSocialMedia index s =
     s\<lparr>socialMedias := map snd (filter (\<lambda>(i, link). i \<noteq> index) (enumerate 0 (socialMedias s)))\<rparr>"

text \<open>
  What the user can do to the social-media editor: type into the two inputs, press
  the add button, press the remove button of an entry.
\<close>

datatype SocialMediaAction =
  SetNewSocialMediaIcon string
| SetNewSocialMediaUrl string
| AddSocialMedia
| RemoveSocialMedia nat

fun socialMedia_step :: "UserDetailsPage \<Rightarrow> SocialMediaAction \<Rightarrow> UserDetailsPage" where
  "socialMedia_step s (SetNewSocialMediaIcon t) = s\<lparr>newSocialMediaIcon := t\<rparr>"
| "socialMedia_step s (SetNewSocialMediaUrl t) = s\<lparr>newSocialMediaUrl := t\<rparr>"
| "socialMedia_step s AddSocialMedia = handleAddSocialMedia s"
| "socialMedia_step s (RemoveSocialMedia i) = handleRemoveSocialMedia i s"

definition separators :: "string \<Rightarrow> nat" where
  "separators link = length (filter (\<lambda>c. c = CHR ''|'') link)"

fun typed_text :: "SocialMediaAction \<Rightarrow> string" where
  "typed_text (SetNewSocialMediaIcon t) = t"
| "typed_text (SetNewSocialMediaUrl t) = t"
| "typed_text AddSocialMedia = []"
| "typed_text (RemoveSocialMedia i) = []"

text \<open>
  The list of entries is rendered with \<open>const [icon, url] = link.split('|')\<close>:
  the text before the first separator and the text between the first and the second;
  \<open>url\<close> is \<open>undefined\<close> when there is no separator.
\<close>

fun split_on :: "char \<Rightarrow> string \<Rightarrow> string list" where
  "split_on c [] = [[]]"
| "split_on c (x # xs) =
     (if x = c then [] # split_on c xs
      else (case split_on c xs of
              [] \<Rightarrow> [[x]]
            | p # ps \<Rightarrow> (x # p) # ps))"

definition rendered_link :: "string \<Rightarrow> string \<times> string option" where
  "rendered_link link =
     (case split_on CHR ''|'' link of
        [] \<Rightarrow> ([], None)
      | [icon] \<Rightarrow> (icon, None)
      | icon # url # rest \<Rightarrow> (icon, Some url))"

text \<open>
  A state of the editor in which every entry has exactly one separator and neither
  input holds one.
\<close>

definition clean :: "UserDetailsPage \<Rightarrow> bool" where
  "clean s = ((\<forall>e\<in>set (socialMedias s). separators e = 1) \<and>
     separators (newSocialMediaIcon s) = 0 \<and> separators (newSocialMediaUrl s) = 0)"

text \<open>
  The two phrases of the resource-client contract: an envelope is failing when
  \<open>success\<close> is false or the data is absent, and the message of the raised error is the
  envelope's error string, or the operation's fallback when the string is missing or
  empty.
\<close>

definition failing :: "'a ApiResponse \<Rightarrow> bool" where
  "failing env = (\<not> success env \<or> data env = None)"

definition raises :: "'b called \<Rightarrow> 'a ApiResponse \<Rightarrow> string \<Rightarrow> bool" where
  "raises r env fallback = (fst r = Inl (js_or (error env) fallback))"

definition call_fails :: "'a transport \<Rightarrow> bool" where
  "call_fails t = (case t of Inl err \<Rightarrow> True | Inr env \<Rightarrow> failing env)"

section \<open>Reading the log of effects\<close>

text \<open>The events a handler added to the log.\<close>

definition new_events :: "event list \<Rightarrow> event list \<Rightarrow> event list" where
  "new_events before after = drop (length before) after"

text \<open>The bodies of the create and update calls in a list of events.\<close>

fun sent_bodies :: "event list \<Rightarrow> body list" where
  "sent_bodies [] = []"
| "sent_bodies (Request POST url b # evs) = b # sent_bodies evs"
| "sent_bodies (Request PUT url b # evs) = b # sent_bodies evs"
| "sent_bodies (ev # evs) = sent_bodies evs"

text \<open>
  What one awaited call hands back: the data of a response that succeeded, and the
  message of the error that a service method raises for a response that did not.
\<close>

definition fetched :: "'a transport \<Rightarrow> 'a option" where
  "fetched t = (case t of Inl err \<Rightarrow> None | Inr env \<Rightarrow> (if success env then data env else None))"

definition both_fetched :: "'a transport \<Rightarrow> 'b transport \<Rightarrow> ('a \<times> 'b) option" where
  "both_fetched t u =
     (case fetched t of
        None \<Rightarrow> None
      | Some a \<Rightarrow> (case fetched u of None \<Rightarrow> None | Some b \<Rightarrow> Some (a, b)))"

definition failure_message :: "'a transport \<Rightarrow> string \<Rightarrow> string" where
  "failure_message t fallback = (case t of Inl err \<Rightarrow> err | Inr env \<Rightarrow> js_or (error env) fallback)"

section \<open>The search contract\<close>

text \<open>
  The search filter as the specification words it: an entity matches a query when the
  lower-cased query is a substring of the lower-cased text of one of its documented
  fields. A \<open>null\<close> description is not a field of the entity.
\<close>

definition matches :: "string \<Rightarrow> string list \<Rightarrow> bool" where
  "matches query texts = list_ex (\<lambda>f. sublist (toLowerCase query) (toLowerCase f)) texts"

definition experience_fields :: "Experience \<Rightarrow> string list" where
  "experience_fields e =
     [exp_companyName e, exp_location e] @ (case exp_description e of None \<Rightarrow> [] | Some d \<Rightarrow> [d])"

definition certification_fields :: "Certification \<Rightarrow> string list" where
  "certification_fields c =
     [cert_name c, cert_issuingOrganization c] @
     (case cert_description c of None \<Rightarrow> [] | Some d \<Rightarrow> [d])"

definition skill_fields :: "Skill \<Rightarrow> string list" where
  "skill_fields k = [skill_name k]"

section \<open>services/auth and store/authStore\<close>

text \<open>
  The browser state the session code touches: \<open>localStorage\<close> and
  \<open>window.location.href\<close>.
\<close>

record browser =
  localStorage :: "string \<rightharpoonup> string"
  location_href :: string

definition removeItem :: "string \<Rightarrow> browser \<Rightarrow> browser" where
  "removeItem k b = b\<lparr>localStorage := (localStorage b)(k := None)\<rparr>"

definition getItem :: "string \<Rightarrow> browser \<Rightarrow> string option" where
  "getItem k b = localStorage b k"

definition authService_logout :: "browser \<Rightarrow> browser" where
  "authService_logout b =
     (removeItem ''user'' (removeItem ''auth_token'' b))\<lparr>location_href := ''/login''\<rparr>"

text \<open>
  \<open>JSON.parse\<close> is a parameter: it throws on malformed text and may yield \<open>null\<close>.
\<close>

definition authService_getStoredUser :: "(string \<Rightarrow> thrown + User option) \<Rightarrow> browser \<Rightarrow> thrown + User option" where
  "authService_getStoredUser JSON_parse b =
     (case getItem ''user'' b of
        None \<Rightarrow> Inr None
      | Some userStr \<Rightarrow> (if userStr = [] then Inr None else JSON_parse userStr))"

definition authService_getStoredToken :: "browser \<Rightarrow> string option" where
  "authService_getStoredToken b = getItem ''auth_token'' b"

definition authService_isAuthenticated :: "browser \<Rightarrow> bool" where
  "authService_isAuthenticated b =
     (case authService_getStoredToken b of None \<Rightarrow> False | Some t \<Rightarrow> t \<noteq> [])"

record AuthState =
  user :: "User option"
  isAuthenticated :: bool
  isLoading :: bool

definition useAuthStore_logout :: "browser \<times> AuthState \<Rightarrow> browser \<times> AuthState" where
  "useAuthStore_logout w =
     (authService_logout (fst w), (snd w)\<lparr>user := None, isAuthenticated := False\<rparr>)"

section \<open>Theorems\<close>

subsection \<open>Resource clients\<close>

lemma unwrap_data_failing:
  "failing env \<Longrightarrow> unwrap_data (Inr env) fallback = Inl (js_or (error env) fallback)"
  by (cases "data env") (simp_all add: failing_def unwrap_data_def)

lemma unwrap_void_failing:
  "\<not> success env \<Longrightarrow> unwrap_void (Inr env) fallback = Inl (js_or (error env) fallback)"
  by (simp add: unwrap_void_def)

text \<open>
  C1, as stated, fails: for an envelope with \<open>success = false\<close> that carries an
  error string, the user-details \<open>get\<close> operation does not fail; it returns \<open>null\<close>.
\<close>

theorem C1_userDetails_get_counterexample:
  "fst (userDetailsService_get
          (Inr \<lparr>success = False, data = None, error = Some ''Unauthorized''\<rparr>) []) = Inr None"
  by (simp add: userDetailsService_get_def)

text \<open>
  C1, amended: for every resource-client operation other than the user-details \<open>get\<close>,
  an envelope with \<open>success = false\<close> (or, for the operations that return data, with
  the data absent) makes the operation fail with one error whose message is the
  envelope's error string when that is present and not empty, and the operation's own
  fallback message otherwise. The user-details \<open>get\<close> returns \<open>null\<close> for such an
  envelope.
\<close>

theorem C1_failing_envelope_raises:
  "(failing eSkills \<longrightarrow> raises (skillsService_getAll (Inr eSkills) net) eSkills ''Failed to fetch skills'') \<and>
   (failing eSkill \<longrightarrow> raises (skillsService_getById ident (Inr eSkill) net) eSkill ''Failed to fetch skill'') \<and>
   (failing eSkill \<longrightarrow> raises (skillsService_create fd (Inr eSkill) net) eSkill ''Failed to create skill'') \<and>
   (failing eSkill \<longrightarrow> raises (skillsService_update ident fd (Inr eSkill) net) eSkill ''Failed to update skill'') \<and>
   (\<not> success eVoid \<longrightarrow> raises (skillsService_delete ident (Inr eVoid) net) eVoid ''Failed to delete skill'') \<and>
   (failing eExps \<longrightarrow> raises (experienceService_getAll (Inr eExps) net) eExps ''Failed to fetch experience'') \<and>
   (failing eExp \<longrightarrow> raises (experienceService_getById ident (Inr eExp) net) eExp ''Failed to fetch experience'') \<and>
   (failing eExp \<longrightarrow> raises (experienceService_create xd (Inr eExp) net) eExp ''Failed to create experience'') \<and>
   (failing eExp \<longrightarrow> raises (experienceService_update ident xd (Inr eExp) net) eExp ''Failed to update experience'') \<and>
   (\<not> success eVoid \<longrightarrow> raises (experienceService_delete ident (Inr eVoid) net) eVoid ''Failed to delete experience'') \<and>
   (failing eCerts \<longrightarrow> raises (certificationsService_getAll (Inr eCerts) net) eCerts ''Failed to fetch certifications'') \<and>
   (failing eCert \<longrightarrow> raises (certificationsService_getById ident (Inr eCert) net) eCert ''Failed to fetch certification'') \<and>
   (failing eCert \<longrightarrow> raises (certificationsService_create cd (Inr eCert) net) eCert ''Failed to create certification'') \<and>
   (failing eCert \<longrightarrow> raises (certificationsService_update ident cd (Inr eCert) net) eCert ''Failed to update certification'') \<and>
   (\<not> success eVoid \<longrightarrow> raises (certificationsService_delete ident (Inr eVoid) net) eVoid ''Failed to delete certification'') \<and>
   (failing eEdus \<longrightarrow> raises (educationService_getAll (Inr eEdus) net) eEdus ''Failed to fetch education'') \<and>
   (failing eEdu \<longrightarrow> raises (educationService_getById ident (Inr eEdu) net) eEdu ''Failed to fetch education'') \<and>
   (failing eEdu \<longrightarrow> raises (educationService_create ud (Inr eEdu) net) eEdu ''Failed to create education'') \<and>
   (failing eEdu \<longrightarrow> raises (educationService_update ident ud (Inr eEdu) net) eEdu ''Failed to update education'') \<and>
   (\<not> success eVoid \<longrightarrow> raises (educationService_delete ident (Inr eVoid) net) eVoid ''Failed to delete education'') \<and>
   (failing eProjs \<longrightarrow> raises (projectsService_getAll (Inr eProjs) net) eProjs ''Failed to fetch projects'') \<and>
   (failing eProj \<longrightarrow> raises (projectsService_getBySlug slug (Inr eProj) net) eProj ''Failed to fetch project'') \<and>
   (failing eProj \<longrightarrow> raises (projectsService_create fd (Inr eProj) net) eProj ''Failed to create project'') \<and>
   (failing eProj \<longrightarrow> raises (projectsService_update ident fd (Inr eProj) net) eProj ''Failed to update project'') \<and>
   (\<not> success eVoid \<longrightarrow> raises (projectsService_delete ident (Inr eVoid) net) eVoid ''Failed to delete project'') \<and>
   (failing eUser \<longrightarrow> raises (userDetailsService_create fd (Inr eUser) net) eUser ''Failed to create user details'') \<and>
   (failing eUser \<longrightarrow> raises (userDetailsService_update fd (Inr eUser) net) eUser ''Failed to update user details'') \<and>
   (failing eUser \<longrightarrow> fst (userDetailsService_get (Inr eUser) net) = Inr None)"
  by (simp add: raises_def unwrap_data_failing unwrap_void_failing userDetailsService_get_def
      failing_def certificationsService_create_def certificationsService_delete_def certificationsService_getAll_def certificationsService_getById_def certificationsService_update_def educationService_create_def educationService_delete_def educationService_getAll_def educationService_getById_def educationService_update_def experienceService_create_def experienceService_delete_def experienceService_getAll_def experienceService_getById_def experienceService_update_def projectsService_create_def projectsService_delete_def projectsService_getAll_def projectsService_getBySlug_def projectsService_update_def skillsService_create_def skillsService_delete_def skillsService_getAll_def skillsService_getById_def skillsService_update_def userDetailsService_create_def userDetailsService_update_def split: option.split)

theorem C1_failing_envelope_witness:
  "failing (\<lparr>success = False, data = None, error = Some ''Forbidden''\<rparr> :: Skill list ApiResponse) \<and>
   fst (skillsService_getAll (Inr \<lparr>success = False, data = None, error = Some ''Forbidden''\<rparr>) []) = Inl ''Forbidden'' \<and>
   fst (skillsService_delete ''7'' (Inr \<lparr>success = False, data = None, error = Some ''Forbidden''\<rparr>) []) = Inl ''Forbidden'' \<and>
   fst (experienceService_create
          \<lparr>ecd_startYear = 2020, ecd_endYear = None, ecd_companyName = ''Acme'', ecd_description = None, ecd_location = ''Oslo'', ecd_skillIds = None\<rparr>
          (Inr \<lparr>success = True, data = None, error = None\<rparr>) [])
     = Inl ''Failed to create experience'' \<and>
   fst (userDetailsService_update [] (Inr \<lparr>success = False, data = None, error = Some []\<rparr>) [])
     = Inl ''Failed to update user details''"
  using C1_failing_envelope_raises
    [of "\<lparr>success = False, data = None, error = Some ''Forbidden''\<rparr>" "[]" "\<lparr>success = False, data = None, error = Some ''Forbidden''\<rparr>" "''7''" "[]" "\<lparr>success = False, data = None, error = Some ''Forbidden''\<rparr>"]
    C1_failing_envelope_raises
    [where eExp = "\<lparr>success = True, data = None, error = None\<rparr>" and net = "[]"
       and xd = "\<lparr>ecd_startYear = 2020, ecd_endYear = None, ecd_companyName = ''Acme'', ecd_description = None, ecd_location = ''Oslo'', ecd_skillIds = None\<rparr>"
       and eUser = "\<lparr>success = False, data = None, error = Some []\<rparr>" and fd = "[]"]
  by (simp add: failing_def raises_def js_or_def)

subsection \<open>Entity pages\<close>

lemma new_events_append [simp]: "new_events xs (xs @ ys) = ys"
  by (simp add: new_events_def)

lemma compressImage_returns: "\<exists>c. compressImage ic now f opts = Inr c"
  by (auto simp: compressImage_def split: sum.splits)

lemma call_fails_fetched: "call_fails t \<longleftrightarrow> fetched t = None"
  by (auto simp: call_fails_def fetched_def failing_def split: sum.splits)

lemma succeeds_fetched: "\<not> call_fails t \<Longrightarrow> \<exists>x. fetched t = Some x"
  by (simp add: call_fails_fetched)

lemma unwrap_data_fetched:
  "unwrap_data t fb = (case fetched t of None \<Rightarrow> Inl (failure_message t fb) | Some d \<Rightarrow> Inr d)"
  by (auto simp: unwrap_data_def fetched_def failure_message_def split: sum.splits option.splits)

lemma both_fetched_None: "fetched t = None \<or> fetched u = None \<Longrightarrow> both_fetched t u = None"
  by (auto simp: both_fetched_def split: option.splits)

lemma both_fetched_Some: "fetched t = Some a \<Longrightarrow> fetched u = Some b \<Longrightarrow> both_fetched t u = Some (a, b)"
  by (simp add: both_fetched_def)

lemma Skills_loadSkills_eq:
  "Skills_loadSkills r s =
     s\<lparr>skills := (case fetched r of None \<Rightarrow> skills s | Some l \<Rightarrow> l),
       sk_isLoading := False,
       sk_log := sk_log s @ Request GET ''/skills'' NoBody #
         (case fetched r of None \<Rightarrow> [ToastError ''Failed to load skills''] | Some l \<Rightarrow> [])\<rparr>"
  by (cases "fetched r")
     (simp_all add: Skills_loadSkills_def skillsService_getAll_def unwrap_data_fetched)

lemma EducationPage_loadEducation_eq:
  "EducationPage_loadEducation r s =
     s\<lparr>education := (case fetched r of None \<Rightarrow> education s | Some l \<Rightarrow> l),
       ed_isLoading := False,
       ed_log := ed_log s @ Request GET ''/education'' NoBody #
         (case fetched r of None \<Rightarrow> [ToastError ''Failed to load education''] | Some l \<Rightarrow> [])\<rparr>"
  by (cases "fetched r")
     (simp_all add: EducationPage_loadEducation_def educationService_getAll_def unwrap_data_fetched)

lemma ExperiencePage_loadData_eq:
  "ExperiencePage_loadData r k s =
     s\<lparr>experiences := (case both_fetched r k of None \<Rightarrow> experiences s | Some p \<Rightarrow> fst p),
       ex_skills := (case both_fetched r k of None \<Rightarrow> ex_skills s | Some p \<Rightarrow> snd p),
       ex_isLoading := False,
       ex_log := ex_log s @ [Request GET ''/experience'' NoBody, Request GET ''/skills'' NoBody] @
         (case both_fetched r k of None \<Rightarrow> [ToastError ''Failed to load data''] | Some p \<Rightarrow> [])\<rparr>"
  by (cases "fetched r"; cases "fetched k")
     (simp_all add: ExperiencePage_loadData_def experienceService_getAll_def skillsService_getAll_def unwrap_data_fetched
        both_fetched_def)

lemma CertificationsPage_loadData_eq:
  "CertificationsPage_loadData r k s =
     s\<lparr>certifications := (case both_fetched r k of None \<Rightarrow> certifications s | Some p \<Rightarrow> fst p),
       ce_skills := (case both_fetched r k of None \<Rightarrow> ce_skills s | Some p \<Rightarrow> snd p),
       ce_isLoading := False,
       ce_log := ce_log s @ [Request GET ''/certifications'' NoBody, Request GET ''/skills'' NoBody] @
         (case both_fetched r k of None \<Rightarrow> [ToastError ''Failed to load data''] | Some p \<Rightarrow> [])\<rparr>"
  by (cases "fetched r"; cases "fetched k")
     (simp_all add: CertificationsPage_loadData_def certificationsService_getAll_def skillsService_getAll_def unwrap_data_fetched
        both_fetched_def)

lemma Projects_loadData_eq:
  "Projects_loadData r k s =
     s\<lparr>projects := (case both_fetched r k of None \<Rightarrow> projects s | Some p \<Rightarrow> fst p),
       pr_skills := (case both_fetched r k of None \<Rightarrow> pr_skills s | Some p \<Rightarrow> snd p),
       pr_isLoading := False,
       pr_log := pr_log s @ [Request GET ''/projects'' NoBody, Request GET ''/skills'' NoBody] @
         (case both_fetched r k of None \<Rightarrow> [ToastError ''Failed to load data''] | Some p \<Rightarrow> [])\<rparr>"
  by (cases "fetched r"; cases "fetched k")
     (simp_all add: Projects_loadData_def projectsService_getAll_def skillsService_getAll_def unwrap_data_fetched
        both_fetched_def)

lemma EducationPage_onSubmit_fails:
  assumes "call_fails m"
  shows "EducationPage_onSubmit m r d s =
     s\<lparr>ed_isSubmitting := False,
       ed_log := ed_log s @
         [Request (if editingEducation s = None then POST else PUT)
            (case editingEducation s of None \<Rightarrow> ''/education'' | Some e \<Rightarrow> ''/education/'' @ edu_id e)
            (EducationJson d),
          ToastError (failure_message m
            (if editingEducation s = None then ''Failed to create education'' else ''Failed to update education''))]\<rparr>"
  using assms unfolding call_fails_fetched
  by (cases "editingEducation s")
     (simp_all add: EducationPage_onSubmit_def EducationPage_onSubmit_try_def
        educationService_create_def educationService_update_def unwrap_data_fetched)

lemma EducationPage_onSubmit_succeeds:
  assumes "\<not> call_fails m"
  shows "EducationPage_onSubmit m r d s =
     s\<lparr>education := (case fetched r of None \<Rightarrow> education s | Some l \<Rightarrow> l),
       ed_isLoading := False, ed_isModalOpen := False, editingEducation := None,
       ed_isSubmitting := False, ed_form := education_defaultValues, ed_errors := [],
       ed_log := ed_log s @
         [Request (if editingEducation s = None then POST else PUT)
            (case editingEducation s of None \<Rightarrow> ''/education'' | Some e \<Rightarrow> ''/education/'' @ edu_id e)
            (EducationJson d),
          ToastSuccess (if editingEducation s = None then ''Education created successfully''
             else ''Education updated successfully''),
          Request GET ''/education'' NoBody] @
         (case fetched r of None \<Rightarrow> [ToastError ''Failed to load education''] | Some l \<Rightarrow> [])\<rparr>"
proof -
  obtain x where fm: "fetched m = Some x"
    using succeeds_fetched[OF assms] by blast
  show ?thesis
    using fm
    by (cases "editingEducation s"; cases "fetched r")
     (simp_all add: EducationPage_onSubmit_def EducationPage_onSubmit_try_def
        educationService_create_def educationService_update_def unwrap_data_fetched both_fetched_def
        EducationPage_loadEducation_eq EducationPage_handleCloseModal_def)
qed

lemma ExperiencePage_onSubmit_fails:
  assumes "call_fails m"
  shows "ExperiencePage_onSubmit m r k d s =
     s\<lparr>ex_isSubmitting := False,
       ex_log := ex_log s @
         [Request (if editingExperience s = None then POST else PUT)
            (case editingExperience s of None \<Rightarrow> ''/experience'' | Some e \<Rightarrow> ''/experience/'' @ exp_id e)
            (ExperienceJson (ExperiencePage_payload (isCurrentJob s) d)),
          ToastError (failure_message m
            (if editingExperience s = None then ''Failed to create experience'' else ''Failed to update experience''))]\<rparr>"
  using assms unfolding call_fails_fetched
  by (cases "editingExperience s")
     (simp_all add: ExperiencePage_onSubmit_def ExperiencePage_onSubmit_try_def
        experienceService_create_def experienceService_update_def unwrap_data_fetched)

lemma ExperiencePage_onSubmit_succeeds:
  assumes "\<not> call_fails m"
  shows "ExperiencePage_onSubmit m r k d s =
     s\<lparr>experiences := (case both_fetched r k of None \<Rightarrow> experiences s | Some p \<Rightarrow> fst p),
       ex_skills := (case both_fetched r k of None \<Rightarrow> ex_skills s | Some p \<Rightarrow> snd p),
       ex_isLoading := False, ex_isModalOpen := False, editingExperience := None,
       ex_isSubmitting := False, isCurrentJob := False,
       ex_form := ex_resetValues s, ex_errors := [],
       ex_log := ex_log s @
         [Request (if editingExperience s = None then POST else PUT)
            (case editingExperience s of None \<Rightarrow> ''/experience'' | Some e \<Rightarrow> ''/experience/'' @ exp_id e)
            (ExperienceJson (ExperiencePage_payload (isCurrentJob s) d)),
          ToastSuccess (if editingExperience s = None then ''Experience created successfully''
             else ''Experience updated successfully''),
          Request GET ''/experience'' NoBody, Request GET ''/skills'' NoBody] @
         (case both_fetched r k of None \<Rightarrow> [ToastError ''Failed to load data''] | Some p \<Rightarrow> [])\<rparr>"
proof -
  obtain x where fm: "fetched m = Some x"
    using succeeds_fetched[OF assms] by blast
  show ?thesis
    using fm
    by (cases "editingExperience s"; cases "fetched r"; cases "fetched k")
     (simp_all add: ExperiencePage_onSubmit_def ExperiencePage_onSubmit_try_def
        experienceService_create_def experienceService_update_def unwrap_data_fetched both_fetched_def
        ExperiencePage_loadData_eq ExperiencePage_handleCloseModal_def)
qed

lemma CertificationsPage_onSubmit_fails:
  assumes "call_fails m"
  shows "CertificationsPage_onSubmit m r k d s =
     s\<lparr>ce_isSubmitting := False,
       ce_log := ce_log s @
         [Request (if editingCertification s = None then POST else PUT)
            (case editingCertification s of None \<Rightarrow> ''/certifications'' | Some e \<Rightarrow> ''/certifications/'' @ cert_id e)
            (CertificationJson (CertificationsPage_payload d)),
          ToastError (failure_message m
            (if editingCertification s = None then ''Failed to create certification'' else ''Failed to update certification''))]\<rparr>"
  using assms unfolding call_fails_fetched
  by (cases "editingCertification s")
     (simp_all add: CertificationsPage_onSubmit_def CertificationsPage_onSubmit_try_def
        certificationsService_create_def certificationsService_update_def unwrap_data_fetched)

lemma CertificationsPage_onSubmit_succeeds:
  assumes "\<not> call_fails m"
  shows "CertificationsPage_onSubmit m r k d s =
     s\<lparr>certifications := (case both_fetched r k of None \<Rightarrow> certifications s | Some p \<Rightarrow> fst p),
       ce_skills := (case both_fetched r k of None \<Rightarrow> ce_skills s | Some p \<Rightarrow> snd p),
       ce_isLoading := False, ce_isModalOpen := False, editingCertification := None,
       ce_isSubmitting := False, ce_form := ce_resetValues s, ce_errors := [],
       ce_log := ce_log s @
         [Request (if editingCertification s = None then POST else PUT)
            (case editingCertification s of None \<Rightarrow> ''/certifications'' | Some e \<Rightarrow> ''/certifications/'' @ cert_id e)
            (CertificationJson (CertificationsPage_payload d)),
          ToastSuccess (if editingCertification s = None then ''Certification created successfully''
             else ''Certification updated successfully''),
          Request GET ''/certifications'' NoBody, Request GET ''/skills'' NoBody] @
         (case both_fetched r k of None \<Rightarrow> [ToastError ''Failed to load data''] | Some p \<Rightarrow> [])\<rparr>"
proof -
  obtain x where fm: "fetched m = Some x"
    using succeeds_fetched[OF assms] by blast
  show ?thesis
    using fm
    by (cases "editingCertification s"; cases "fetched r"; cases "fetched k")
     (simp_all add: CertificationsPage_onSubmit_def CertificationsPage_onSubmit_try_def
        certificationsService_create_def certificationsService_update_def unwrap_data_fetched both_fetched_def
        CertificationsPage_loadData_eq CertificationsPage_handleCloseModal_def)
qed

lemma Skills_onSubmit_send_fails:
  assumes "fetched m = None"
  shows "Skills_onSubmit_send m r fd t =
     (Some (failure_message m
        (if editingSkill t = None then ''Failed to create skill'' else ''Failed to update skill'')),
      t\<lparr>sk_log := sk_log t @
         [Request (if editingSkill t = None then POST else PUT)
            (case editingSkill t of None \<Rightarrow> ''/skills'' | Some e \<Rightarrow> ''/skills/'' @ skill_id e)
            (Multipart fd)]\<rparr>)"
  using assms
  by (cases "editingSkill t")
     (simp_all add: Skills_onSubmit_send_def skillsService_create_def skillsService_update_def
        unwrap_data_fetched)

lemma Skills_onSubmit_send_succeeds:
  assumes "fetched m = Some x"
  shows "Skills_onSubmit_send m r fd t =
     (None,
      t\<lparr>skills := (case fetched r of None \<Rightarrow> skills t | Some l \<Rightarrow> l),
        sk_isLoading := False, sk_isModalOpen := False, editingSkill := None,
        iconPreview := None, sk_form := skill_defaultValues, sk_errors := [],
        sk_log := sk_log t @
         [Request (if editingSkill t = None then POST else PUT)
            (case editingSkill t of None \<Rightarrow> ''/skills'' | Some e \<Rightarrow> ''/skills/'' @ skill_id e)
            (Multipart fd),
          ToastSuccess (if editingSkill t = None then ''Skill created successfully''
             else ''Skill updated successfully''),
          Request GET ''/skills'' NoBody] @
         (case fetched r of None \<Rightarrow> [ToastError ''Failed to load skills''] | Some l \<Rightarrow> [])\<rparr>)"
  using assms
  by (cases "editingSkill t"; cases "fetched r")
     (simp_all add: Skills_onSubmit_send_def skillsService_create_def skillsService_update_def
        unwrap_data_fetched Skills_loadSkills_eq Skills_handleCloseModal_def)

lemma Skills_onSubmit_reaches_send:
  assumes "first_file (sfd_icon d) \<noteq> None \<or> editingSkill t \<noteq> None"
  shows "\<exists>fd. Skills_onSubmit_try ic now m r d t = Skills_onSubmit_send m r fd t"
proof (cases "first_file (sfd_icon d)")
  case None
  with assms show ?thesis by (auto simp: Skills_onSubmit_try_def)
next
  case (Some f)
  obtain c where "compressImage ic now f no_options = Inr c"
    using compressImage_returns by blast
  with Some show ?thesis by (auto simp: Skills_onSubmit_try_def)
qed

lemma Skills_onSubmit_fails:
  assumes "call_fails m" and "first_file (sfd_icon d) \<noteq> None \<or> editingSkill s \<noteq> None"
  shows "\<exists>fd. Skills_onSubmit ic now m r d s =
     s\<lparr>sk_isSubmitting := False,
       sk_log := sk_log s @
         [Request (if editingSkill s = None then POST else PUT)
            (case editingSkill s of None \<Rightarrow> ''/skills'' | Some e \<Rightarrow> ''/skills/'' @ skill_id e)
            (Multipart fd),
          ToastError (failure_message m
            (if editingSkill s = None then ''Failed to create skill''
             else ''Failed to update skill''))]\<rparr>"
proof -
  have "first_file (sfd_icon d) \<noteq> None \<or> editingSkill (s\<lparr>sk_isSubmitting := True\<rparr>) \<noteq> None"
    using assms(2) by simp
  from Skills_onSubmit_reaches_send[OF this, of ic now m r]
  obtain fd where fd: "Skills_onSubmit_try ic now m r d (s\<lparr>sk_isSubmitting := True\<rparr>) =
      Skills_onSubmit_send m r fd (s\<lparr>sk_isSubmitting := True\<rparr>)"
    by blast
  have "Skills_onSubmit ic now m r d s =
     s\<lparr>sk_isSubmitting := False,
       sk_log := sk_log s @
         [Request (if editingSkill s = None then POST else PUT)
            (case editingSkill s of None \<Rightarrow> ''/skills'' | Some e \<Rightarrow> ''/skills/'' @ skill_id e)
            (Multipart fd),
          ToastError (failure_message m
            (if editingSkill s = None then ''Failed to create skill''
             else ''Failed to update skill''))]\<rparr>"
    using assms(1)
    by (simp add: Skills_onSubmit_def fd Skills_onSubmit_send_fails call_fails_fetched)
  then show ?thesis by blast
qed

lemma Skills_onSubmit_succeeds:
  assumes "\<not> call_fails m" and "first_file (sfd_icon d) \<noteq> None \<or> editingSkill s \<noteq> None"
  shows "\<exists>fd. Skills_onSubmit ic now m r d s =
     s\<lparr>skills := (case fetched r of None \<Rightarrow> skills s | Some l \<Rightarrow> l),
       sk_isLoading := False, sk_isModalOpen := False, editingSkill := None,
       sk_isSubmitting := False, iconPreview := None, sk_form := skill_defaultValues,
       sk_errors := [],
       sk_log := sk_log s @
         [Request (if editingSkill s = None then POST else PUT)
            (case editingSkill s of None \<Rightarrow> ''/skills'' | Some e \<Rightarrow> ''/skills/'' @ skill_id e)
            (Multipart fd),
          ToastSuccess (if editingSkill s = None then ''Skill created successfully''
             else ''Skill updated successfully''),
          Request GET ''/skills'' NoBody] @
         (case fetched r of None \<Rightarrow> [ToastError ''Failed to load skills''] | Some l \<Rightarrow> [])\<rparr>"
proof -
  have "first_file (sfd_icon d) \<noteq> None \<or> editingSkill (s\<lparr>sk_isSubmitting := True\<rparr>) \<noteq> None"
    using assms(2) by simp
  from Skills_onSubmit_reaches_send[OF this, of ic now m r]
  obtain fd where fd: "Skills_onSubmit_try ic now m r d (s\<lparr>sk_isSubmitting := True\<rparr>) =
      Skills_onSubmit_send m r fd (s\<lparr>sk_isSubmitting := True\<rparr>)"
    by blast
  have "Skills_onSubmit ic now m r d s =
     s\<lparr>skills := (case fetched r of None \<Rightarrow> skills s | Some l \<Rightarrow> l),
       sk_isLoading := False, sk_isModalOpen := False, editingSkill := None,
       sk_isSubmitting := False, iconPreview := None, sk_form := skill_defaultValues,
       sk_errors := [],
       sk_log := sk_log s @
         [Request (if editingSkill s = None then POST else PUT)
            (case editingSkill s of None \<Rightarrow> ''/skills'' | Some e \<Rightarrow> ''/skills/'' @ skill_id e)
            (Multipart fd),
          ToastSuccess (if editingSkill s = None then ''Skill created successfully''
             else ''Skill updated successfully''),
          Request GET ''/skills'' NoBody] @
         (case fetched r of None \<Rightarrow> [ToastError ''Failed to load skills''] | Some l \<Rightarrow> [])\<rparr>"
    using succeeds_fetched[OF assms(1)]
    by (cases "fetched r")
       (auto simp: Skills_onSubmit_def fd Skills_onSubmit_send_succeeds)
  then show ?thesis by blast
qed

lemma compress_contentImages_returns: "\<exists>fd. compress_contentImages ic now files = Inr fd"
proof (induction files)
  case Nil
  show ?case by simp
next
  case (Cons f fs)
  obtain c where "compressImage ic now f no_options = Inr c"
    using compressImage_returns by blast
  with Cons show ?case by auto
qed

lemma Projects_formData_returns: "\<exists>fd. Projects_formData ic now isoNow js d s = Inr fd"
proof -
  obtain imgs where imgs: "compress_contentImages ic now (previewFiles s) = Inr imgs"
    using compress_contentImages_returns by blast
  show ?thesis
  proof (cases "first_file (pfd_coverImage d)")
    case None
    with imgs show ?thesis by (simp add: Projects_formData_def)
  next
    case (Some f)
    obtain c where "compressImage ic now f no_options = Inr c"
      using compressImage_returns by blast
    with Some imgs show ?thesis by (simp add: Projects_formData_def)
  qed
qed

lemma Projects_onSubmit_fails:
  assumes "call_fails m"
  shows "\<exists>fd. Projects_onSubmit ic now isoNow js m r k d s =
     s\<lparr>pr_isSubmitting := False,
       pr_log := pr_log s @
         [Request (if editingProject s = None then POST else PUT)
            (case editingProject s of None \<Rightarrow> ''/projects'' | Some e \<Rightarrow> ''/projects/'' @ proj_id e)
            (Multipart fd),
          ToastError (failure_message m
            (if editingProject s = None then ''Failed to create project''
             else ''Failed to update project''))]\<rparr>"
proof -
  obtain fd where fd: "Projects_formData ic now isoNow js d (s\<lparr>pr_isSubmitting := True\<rparr>) = Inr fd"
    using Projects_formData_returns by blast
  have "Projects_onSubmit ic now isoNow js m r k d s =
     s\<lparr>pr_isSubmitting := False,
       pr_log := pr_log s @
         [Request (if editingProject s = None then POST else PUT)
            (case editingProject s of None \<Rightarrow> ''/projects'' | Some e \<Rightarrow> ''/projects/'' @ proj_id e)
            (Multipart fd),
          ToastError (failure_message m
            (if editingProject s = None then ''Failed to create project''
             else ''Failed to update project''))]\<rparr>"
    using assms unfolding call_fails_fetched
    by (cases "editingProject s")
       (simp_all add: Projects_onSubmit_def Projects_onSubmit_try_def fd
          projectsService_create_def projectsService_update_def unwrap_data_fetched)
  then show ?thesis by blast
qed

lemma Projects_onSubmit_succeeds:
  assumes "\<not> call_fails m"
  shows "\<exists>fd. Projects_onSubmit ic now isoNow js m r k d s =
     s\<lparr>projects := (case both_fetched r k of None \<Rightarrow> projects s | Some p \<Rightarrow> fst p),
       pr_skills := (case both_fetched r k of None \<Rightarrow> pr_skills s | Some p \<Rightarrow> snd p),
       pr_isLoading := False, pr_isModalOpen := False, editingProject := None,
       pr_isSubmitting := False, coverPreview := None, previewImages := [], previewFiles := [],
       pr_form := pr_resetValues s, pr_errors := [],
       pr_log := pr_log s @
         [Request (if editingProject s = None then POST else PUT)
            (case editingProject s of None \<Rightarrow> ''/projects'' | Some e \<Rightarrow> ''/projects/'' @ proj_id e)
            (Multipart fd),
          ToastSuccess (if editingProject s = None then ''Project created successfully''
             else ''Project updated successfully''),
          Request GET ''/projects'' NoBody, Request GET ''/skills'' NoBody] @
         (case both_fetched r k of None \<Rightarrow> [ToastError ''Failed to load data''] | Some p \<Rightarrow> [])\<rparr>"
proof -
  obtain fd where fd: "Projects_formData ic now isoNow js d (s\<lparr>pr_isSubmitting := True\<rparr>) = Inr fd"
    using Projects_formData_returns by blast
  have "Projects_onSubmit ic now isoNow js m r k d s =
     s\<lparr>projects := (case both_fetched r k of None \<Rightarrow> projects s | Some p \<Rightarrow> fst p),
       pr_skills := (case both_fetched r k of None \<Rightarrow> pr_skills s | Some p \<Rightarrow> snd p),
       pr_isLoading := False, pr_isModalOpen := False, editingProject := None,
       pr_isSubmitting := False, coverPreview := None, previewImages := [], previewFiles := [],
       pr_form := pr_resetValues s, pr_errors := [],
       pr_log := pr_log s @
         [Request (if editingProject s = None then POST else PUT)
            (case editingProject s of None \<Rightarrow> ''/projects'' | Some e \<Rightarrow> ''/projects/'' @ proj_id e)
            (Multipart fd),
          ToastSuccess (if editingProject s = None then ''Project created successfully''
             else ''Project updated successfully''),
          Request GET ''/projects'' NoBody, Request GET ''/skills'' NoBody] @
         (case both_fetched r k of None \<Rightarrow> [ToastError ''Failed to load data''] | Some p \<Rightarrow> [])\<rparr>"
    using succeeds_fetched[OF assms]
    by (cases "editingProject s"; cases "fetched r"; cases "fetched k")
       (auto simp: Projects_onSubmit_def Projects_onSubmit_try_def fd
          projectsService_create_def projectsService_update_def unwrap_data_fetched
          both_fetched_def Projects_loadData_eq Projects_handleCloseModal_def)
  then show ?thesis by blast
qed

lemma Skills_mount_load_fails: "call_fails response \<Longrightarrow>
   Skills_loadSkills response Skills_mount =
     Skills_mount\<lparr>sk_log := [Request GET ''/skills'' NoBody, ToastError ''Failed to load skills''], sk_isLoading := False\<rparr>"
  by (simp add: Skills_loadSkills_eq call_fails_fetched Skills_mount_def)

lemma EducationPage_mount_load_fails: "call_fails response \<Longrightarrow>
   EducationPage_loadEducation response EducationPage_mount =
     EducationPage_mount\<lparr>ed_log := [Request GET ''/education'' NoBody, ToastError ''Failed to load education''], ed_isLoading := False\<rparr>"
  by (simp add: EducationPage_loadEducation_eq call_fails_fetched EducationPage_mount_def)

lemma ExperiencePage_mount_load_fails:
  assumes "call_fails r1 \<or> call_fails r2"
  shows "ExperiencePage_loadData r1 r2 ExperiencePage_mount =
     ExperiencePage_mount\<lparr>ex_log := [Request GET ''/experience'' NoBody, Request GET ''/skills'' NoBody, ToastError ''Failed to load data''], ex_isLoading := False\<rparr>"
  using both_fetched_None[of r1 r2] assms
  by (simp add: ExperiencePage_loadData_eq call_fails_fetched ExperiencePage_mount_def)

lemma CertificationsPage_mount_load_fails:
  assumes "call_fails r1 \<or> call_fails r2"
  shows "CertificationsPage_loadData r1 r2 CertificationsPage_mount =
     CertificationsPage_mount\<lparr>ce_log := [Request GET ''/certifications'' NoBody, Request GET ''/skills'' NoBody, ToastError ''Failed to load data''], ce_isLoading := False\<rparr>"
  using both_fetched_None[of r1 r2] assms
  by (simp add: CertificationsPage_loadData_eq call_fails_fetched CertificationsPage_mount_def)

lemma Projects_mount_load_fails:
  assumes "call_fails r1 \<or> call_fails r2"
  shows "Projects_loadData r1 r2 Projects_mount =
     Projects_mount\<lparr>pr_log := [Request GET ''/projects'' NoBody, Request GET ''/skills'' NoBody, ToastError ''Failed to load data''], pr_isLoading := False\<rparr>"
  using both_fetched_None[of r1 r2] assms
  by (simp add: Projects_loadData_eq call_fails_fetched Projects_mount_def)

lemma sent_bodies_append: "sent_bodies (xs @ ys) = sent_bodies xs @ sent_bodies ys"
  by (induction xs rule: sent_bodies.induct) simp_all

lemma ExperiencePage_onSubmit_sent:
  "sent_bodies (new_events (ex_log s) (ex_log (ExperiencePage_onSubmit mutation r1 r2 d s)))
     = [ExperienceJson (ExperiencePage_payload (isCurrentJob s) d)]"
proof (cases "call_fails mutation")
  case True
  show ?thesis
    by (cases "editingExperience s") (simp_all add: ExperiencePage_onSubmit_fails[OF True])
next
  case False
  show ?thesis
    by (cases "editingExperience s"; cases "both_fetched r1 r2")
       (simp_all add: ExperiencePage_onSubmit_succeeds[OF False])
qed

lemma CertificationsPage_onSubmit_sent:
  "sent_bodies (new_events (ce_log s) (ce_log (CertificationsPage_onSubmit mutation r1 r2 d s)))
     = [CertificationJson (CertificationsPage_payload d)]"
proof (cases "call_fails mutation")
  case True
  show ?thesis
    by (cases "editingCertification s") (simp_all add: CertificationsPage_onSubmit_fails[OF True])
next
  case False
  show ?thesis
    by (cases "editingCertification s"; cases "both_fetched r1 r2")
       (simp_all add: CertificationsPage_onSubmit_succeeds[OF False])
qed

lemma CertificationsPage_onSubmit_errors:
  assumes "ce_errors s = []"
  shows "ce_errors (CertificationsPage_onSubmit mutation r1 r2 d s) = []"
proof (cases "call_fails mutation")
  case True
  with assms show ?thesis by (simp add: CertificationsPage_onSubmit_fails[OF True])
next
  case False
  then show ?thesis by (simp add: CertificationsPage_onSubmit_succeeds[OF False])
qed

text \<open>
  C2: on every entity page, a submission that reaches the create or update call and
  whose call fails changes nothing but the log, which gains exactly that call and one
  notification with the error's message: there is no refetch, the modal stays as it
  was and every piece of form state is kept. When the call succeeds, the log gains the
  call, the success notification and only then the refetch (followed by an error
  notification exactly when the refetch fails); the list becomes the refetched one (it
  is kept when the refetch fails), and the modal is closed with its form reset.
\<close>

theorem C2_submit_failure_and_success:
  "(call_fails mS \<and> (first_file (sfd_icon dS) \<noteq> None \<or> editingSkill sS \<noteq> None) \<longrightarrow>
     (\<exists>fd. Skills_onSubmit ic now mS rS dS sS =
        sS\<lparr>sk_isSubmitting := False,
          sk_log := sk_log sS @
            [Request (if editingSkill sS = None then POST else PUT)
               (case editingSkill sS of None \<Rightarrow> ''/skills'' | Some e \<Rightarrow> ''/skills/'' @ skill_id e)
               (Multipart fd),
             ToastError (failure_message mS
               (if editingSkill sS = None then ''Failed to create skill''
                else ''Failed to update skill''))]\<rparr>)) \<and>
   (\<not> call_fails mS \<and> (first_file (sfd_icon dS) \<noteq> None \<or> editingSkill sS \<noteq> None) \<longrightarrow>
     (\<exists>fd. Skills_onSubmit ic now mS rS dS sS =
        sS\<lparr>skills := (case fetched rS of None \<Rightarrow> skills sS | Some l \<Rightarrow> l),
          sk_isLoading := False, sk_isModalOpen := False, editingSkill := None,
          sk_isSubmitting := False, iconPreview := None, sk_form := skill_defaultValues,
          sk_errors := [],
          sk_log := sk_log sS @
            [Request (if editingSkill sS = None then POST else PUT)
               (case editingSkill sS of None \<Rightarrow> ''/skills'' | Some e \<Rightarrow> ''/skills/'' @ skill_id e)
               (Multipart fd),
             ToastSuccess (if editingSkill sS = None then ''Skill created successfully''
                else ''Skill updated successfully''),
             Request GET ''/skills'' NoBody] @
            (case fetched rS of None \<Rightarrow> [ToastError ''Failed to load skills''] | Some l \<Rightarrow> [])\<rparr>)) \<and>
   (call_fails mE \<longrightarrow>
     (ExperiencePage_onSubmit mE rE kE dE sE =
        sE\<lparr>ex_isSubmitting := False,
          ex_log := ex_log sE @
            [Request (if editingExperience sE = None then POST else PUT)
               (case editingExperience sE of None \<Rightarrow> ''/experience'' | Some e \<Rightarrow> ''/experience/'' @ exp_id e)
               (ExperienceJson (ExperiencePage_payload (isCurrentJob sE) dE)),
             ToastError (failure_message mE
               (if editingExperience sE = None then ''Failed to create experience'' else ''Failed to update experience''))]\<rparr>)) \<and>
   (\<not> call_fails mE \<longrightarrow>
     (ExperiencePage_onSubmit mE rE kE dE sE =
        sE\<lparr>experiences := (case both_fetched rE kE of None \<Rightarrow> experiences sE | Some p \<Rightarrow> fst p),
          ex_skills := (case both_fetched rE kE of None \<Rightarrow> ex_skills sE | Some p \<Rightarrow> snd p),
          ex_isLoading := False, ex_isModalOpen := False, editingExperience := None,
          ex_isSubmitting := False, isCurrentJob := False,
          ex_form := ex_resetValues sE, ex_errors := [],
          ex_log := ex_log sE @
            [Request (if editingExperience sE = None then POST else PUT)
               (case editingExperience sE of None \<Rightarrow> ''/experience'' | Some e \<Rightarrow> ''/experience/'' @ exp_id e)
               (ExperienceJson (ExperiencePage_payload (isCurrentJob sE) dE)),
             ToastSuccess (if editingExperience sE = None then ''Experience created successfully''
                else ''Experience updated successfully''),
             Request GET ''/experience'' NoBody, Request GET ''/skills'' NoBody] @
            (case both_fetched rE kE of None \<Rightarrow> [ToastError ''Failed to load data''] | Some p \<Rightarrow> [])\<rparr>)) \<and>
   (call_fails mC \<longrightarrow>
     (CertificationsPage_onSubmit mC rC kC dC sC =
        sC\<lparr>ce_isSubmitting := False,
          ce_log := ce_log sC @
            [Request (if editingCertification sC = None then POST else PUT)
               (case editingCertification sC of None \<Rightarrow> ''/certifications'' | Some e \<Rightarrow> ''/certifications/'' @ cert_id e)
               (CertificationJson (CertificationsPage_payload dC)),
             ToastError (failure_message mC
               (if editingCertification sC = None then ''Failed to create certification'' else ''Failed to update certification''))]\<rparr>)) \<and>
   (\<not> call_fails mC \<longrightarrow>
     (CertificationsPage_onSubmit mC rC kC dC sC =
        sC\<lparr>certifications := (case both_fetched rC kC of None \<Rightarrow> certifications sC | Some p \<Rightarrow> fst p),
          ce_skills := (case both_fetched rC kC of None \<Rightarrow> ce_skills sC | Some p \<Rightarrow> snd p),
          ce_isLoading := False, ce_isModalOpen := False, editingCertification := None,
          ce_isSubmitting := False, ce_form := ce_resetValues sC, ce_errors := [],
          ce_log := ce_log sC @
            [Request (if editingCertification sC = None then POST else PUT)
               (case editingCertification sC of None \<Rightarrow> ''/certifications'' | Some e \<Rightarrow> ''/certifications/'' @ cert_id e)
               (CertificationJson (CertificationsPage_payload dC)),
             ToastSuccess (if editingCertification sC = None then ''Certification created successfully''
                else ''Certification updated successfully''),
             Request GET ''/certifications'' NoBody, Request GET ''/skills'' NoBody] @
            (case both_fetched rC kC of None \<Rightarrow> [ToastError ''Failed to load data''] | Some p \<Rightarrow> [])\<rparr>)) \<and>
   (call_fails mD \<longrightarrow>
     (EducationPage_onSubmit mD rD dD sD =
        sD\<lparr>ed_isSubmitting := False,
          ed_log := ed_log sD @
            [Request (if editingEducation sD = None then POST else PUT)
               (case editingEducation sD of None \<Rightarrow> ''/education'' | Some e \<Rightarrow> ''/education/'' @ edu_id e)
               (EducationJson dD),
             ToastError (failure_message mD
               (if editingEducation sD = None then ''Failed to create education'' else ''Failed to update education''))]\<rparr>)) \<and>
   (\<not> call_fails mD \<longrightarrow>
     (EducationPage_onSubmit mD rD dD sD =
        sD\<lparr>education := (case fetched rD of None \<Rightarrow> education sD | Some l \<Rightarrow> l),
          ed_isLoading := False, ed_isModalOpen := False, editingEducation := None,
          ed_isSubmitting := False, ed_form := education_defaultValues, ed_errors := [],
          ed_log := ed_log sD @
            [Request (if editingEducation sD = None then POST else PUT)
               (case editingEducation sD of None \<Rightarrow> ''/education'' | Some e \<Rightarrow> ''/education/'' @ edu_id e)
               (EducationJson dD),
             ToastSuccess (if editingEducation sD = None then ''Education created successfully''
                else ''Education updated successfully''),
             Request GET ''/education'' NoBody] @
            (case fetched rD of None \<Rightarrow> [ToastError ''Failed to load education''] | Some l \<Rightarrow> [])\<rparr>)) \<and>
   (call_fails mP \<longrightarrow>
     (\<exists>fd. Projects_onSubmit ic now isoNow JSON_stringify mP rP kP dP sP =
        sP\<lparr>pr_isSubmitting := False,
          pr_log := pr_log sP @
            [Request (if editingProject sP = None then POST else PUT)
               (case editingProject sP of None \<Rightarrow> ''/projects'' | Some e \<Rightarrow> ''/projects/'' @ proj_id e)
               (Multipart fd),
             ToastError (failure_message mP
               (if editingProject sP = None then ''Failed to create project''
                else ''Failed to update project''))]\<rparr>)) \<and>
   (\<not> call_fails mP \<longrightarrow>
     (\<exists>fd. Projects_onSubmit ic now isoNow JSON_stringify mP rP kP dP sP =
        sP\<lparr>projects := (case both_fetched rP kP of None \<Rightarrow> projects sP | Some p \<Rightarrow> fst p),
          pr_skills := (case both_fetched rP kP of None \<Rightarrow> pr_skills sP | Some p \<Rightarrow> snd p),
          pr_isLoading := False, pr_isModalOpen := False, editingProject := None,
          pr_isSubmitting := False, coverPreview := None, previewImages := [], previewFiles := [],
          pr_form := pr_resetValues sP, pr_errors := [],
          pr_log := pr_log sP @
            [Request (if editingProject sP = None then POST else PUT)
               (case editingProject sP of None \<Rightarrow> ''/projects'' | Some e \<Rightarrow> ''/projects/'' @ proj_id e)
               (Multipart fd),
             ToastSuccess (if editingProject sP = None then ''Project created successfully''
                else ''Project updated successfully''),
             Request GET ''/projects'' NoBody, Request GET ''/skills'' NoBody] @
            (case both_fetched rP kP of None \<Rightarrow> [ToastError ''Failed to load data''] | Some p \<Rightarrow> [])\<rparr>))"
  using Skills_onSubmit_fails[of mS dS sS ic now rS]
    Skills_onSubmit_succeeds[of mS dS sS ic now rS]
    ExperiencePage_onSubmit_fails[of mE rE kE dE sE]
    ExperiencePage_onSubmit_succeeds[of mE rE kE dE sE]
    CertificationsPage_onSubmit_fails[of mC rC kC dC sC]
    CertificationsPage_onSubmit_succeeds[of mC rC kC dC sC]
    EducationPage_onSubmit_fails[of mD rD dD sD]
    EducationPage_onSubmit_succeeds[of mD rD dD sD]
    Projects_onSubmit_fails[of mP ic now isoNow JSON_stringify rP kP dP sP]
    Projects_onSubmit_succeeds[of mP ic now isoNow JSON_stringify rP kP dP sP]
  by (intro conjI impI; (elim conjE)?; simp)

theorem C2_submit_witness:
  "call_fails (Inl ''Network Error'' :: Education transport) \<and>
   EducationPage_onSubmit (Inl ''Network Error'') (Inr \<lparr>success = True, data = Some [\<lparr>edu_id = ''e1'', edu_userId = ''u1'', edu_year = ''2015 - 2019'', edu_institutionName = ''MIT'', edu_description = None, edu_createdAt = ''t0'', edu_updatedAt = ''t0''\<rparr>], error = None\<rparr>) \<lparr>ed_year = ''2015 - 2019'', ed_institutionName = ''MIT'', ed_description = None\<rparr> (EducationPage_mount\<lparr>ed_isModalOpen := True, ed_form := \<lparr>ed_year = ''2015 - 2019'', ed_institutionName = ''MIT'', ed_description = None\<rparr>\<rparr>) =
     (EducationPage_mount\<lparr>ed_isModalOpen := True, ed_form := \<lparr>ed_year = ''2015 - 2019'', ed_institutionName = ''MIT'', ed_description = None\<rparr>\<rparr>)\<lparr>ed_log := [Request POST ''/education'' (EducationJson \<lparr>ed_year = ''2015 - 2019'', ed_institutionName = ''MIT'', ed_description = None\<rparr>), ToastError ''Network Error'']\<rparr> \<and>
   \<not> call_fails (Inr \<lparr>success = True, data = Some \<lparr>edu_id = ''e1'', edu_userId = ''u1'', edu_year = ''2015 - 2019'', edu_institutionName = ''MIT'', edu_description = None, edu_createdAt = ''t0'', edu_updatedAt = ''t0''\<rparr>, error = None\<rparr>) \<and>
   education (EducationPage_onSubmit (Inr \<lparr>success = True, data = Some \<lparr>edu_id = ''e1'', edu_userId = ''u1'', edu_year = ''2015 - 2019'', edu_institutionName = ''MIT'', edu_description = None, edu_createdAt = ''t0'', edu_updatedAt = ''t0''\<rparr>, error = None\<rparr>) (Inr \<lparr>success = True, data = Some [\<lparr>edu_id = ''e1'', edu_userId = ''u1'', edu_year = ''2015 - 2019'', edu_institutionName = ''MIT'', edu_description = None, edu_createdAt = ''t0'', edu_updatedAt = ''t0''\<rparr>], error = None\<rparr>) \<lparr>ed_year = ''2015 - 2019'', ed_institutionName = ''MIT'', ed_description = None\<rparr> (EducationPage_mount\<lparr>ed_isModalOpen := True, ed_form := \<lparr>ed_year = ''2015 - 2019'', ed_institutionName = ''MIT'', ed_description = None\<rparr>\<rparr>)) = [\<lparr>edu_id = ''e1'', edu_userId = ''u1'', edu_year = ''2015 - 2019'', edu_institutionName = ''MIT'', edu_description = None, edu_createdAt = ''t0'', edu_updatedAt = ''t0''\<rparr>] \<and>
   ed_log (EducationPage_onSubmit (Inr \<lparr>success = True, data = Some \<lparr>edu_id = ''e1'', edu_userId = ''u1'', edu_year = ''2015 - 2019'', edu_institutionName = ''MIT'', edu_description = None, edu_createdAt = ''t0'', edu_updatedAt = ''t0''\<rparr>, error = None\<rparr>) (Inr \<lparr>success = True, data = Some [\<lparr>edu_id = ''e1'', edu_userId = ''u1'', edu_year = ''2015 - 2019'', edu_institutionName = ''MIT'', edu_description = None, edu_createdAt = ''t0'', edu_updatedAt = ''t0''\<rparr>], error = None\<rparr>) \<lparr>ed_year = ''2015 - 2019'', ed_institutionName = ''MIT'', ed_description = None\<rparr> (EducationPage_mount\<lparr>ed_isModalOpen := True, ed_form := \<lparr>ed_year = ''2015 - 2019'', ed_institutionName = ''MIT'', ed_description = None\<rparr>\<rparr>)) =
     [Request POST ''/education'' (EducationJson \<lparr>ed_year = ''2015 - 2019'', ed_institutionName = ''MIT'', ed_description = None\<rparr>), ToastSuccess ''Education created successfully'',
      Request GET ''/education'' NoBody] \<and>
   \<not> ed_isModalOpen (EducationPage_onSubmit (Inr \<lparr>success = True, data = Some \<lparr>edu_id = ''e1'', edu_userId = ''u1'', edu_year = ''2015 - 2019'', edu_institutionName = ''MIT'', edu_description = None, edu_createdAt = ''t0'', edu_updatedAt = ''t0''\<rparr>, error = None\<rparr>) (Inr \<lparr>success = True, data = Some [\<lparr>edu_id = ''e1'', edu_userId = ''u1'', edu_year = ''2015 - 2019'', edu_institutionName = ''MIT'', edu_description = None, edu_createdAt = ''t0'', edu_updatedAt = ''t0''\<rparr>], error = None\<rparr>) \<lparr>ed_year = ''2015 - 2019'', ed_institutionName = ''MIT'', ed_description = None\<rparr> (EducationPage_mount\<lparr>ed_isModalOpen := True, ed_form := \<lparr>ed_year = ''2015 - 2019'', ed_institutionName = ''MIT'', ed_description = None\<rparr>\<rparr>))"
  using C2_submit_failure_and_success
      [where mD = "Inl ''Network Error''" and rD = "(Inr \<lparr>success = True, data = Some [\<lparr>edu_id = ''e1'', edu_userId = ''u1'', edu_year = ''2015 - 2019'', edu_institutionName = ''MIT'', edu_description = None, edu_createdAt = ''t0'', edu_updatedAt = ''t0''\<rparr>], error = None\<rparr>)" and dD = "\<lparr>ed_year = ''2015 - 2019'', ed_institutionName = ''MIT'', ed_description = None\<rparr>" and sD = "(EducationPage_mount\<lparr>ed_isModalOpen := True, ed_form := \<lparr>ed_year = ''2015 - 2019'', ed_institutionName = ''MIT'', ed_description = None\<rparr>\<rparr>)"]
    C2_submit_failure_and_success
      [where mD = "(Inr \<lparr>success = True, data = Some \<lparr>edu_id = ''e1'', edu_userId = ''u1'', edu_year = ''2015 - 2019'', edu_institutionName = ''MIT'', edu_description = None, edu_createdAt = ''t0'', edu_updatedAt = ''t0''\<rparr>, error = None\<rparr>)" and rD = "(Inr \<lparr>success = True, data = Some [\<lparr>edu_id = ''e1'', edu_userId = ''u1'', edu_year = ''2015 - 2019'', edu_institutionName = ''MIT'', edu_description = None, edu_createdAt = ''t0'', edu_updatedAt = ''t0''\<rparr>], error = None\<rparr>)" and dD = "\<lparr>ed_year = ''2015 - 2019'', ed_institutionName = ''MIT'', ed_description = None\<rparr>" and sD = "(EducationPage_mount\<lparr>ed_isModalOpen := True, ed_form := \<lparr>ed_year = ''2015 - 2019'', ed_institutionName = ''MIT'', ed_description = None\<rparr>\<rparr>)"]
  by (simp add: call_fails_def failing_def fetched_def failure_message_def EducationPage_mount_def)

text \<open>
  C3: when the experience form passes validation and the "currently working here"
  toggle is set, the one payload handed to create or update has \<open>endYear = null\<close>,
  whatever the end-year field holds; the other keys are the validated form data.
\<close>

theorem C3_current_job_endYear_null:
  assumes "isCurrentJob s" and "experienceSchema currentYear (ex_form s) = Inr d"
  shows "sent_bodies (new_events (ex_log s)
            (ex_log (ExperiencePage_handleSubmit currentYear mutation r1 r2 s)))
         = [ExperienceJson
              \<lparr>ecd_startYear = efd_startYear d, ecd_endYear = None,
               ecd_companyName = efd_companyName d, ecd_description = efd_description d,
               ecd_location = efd_location d, ecd_skillIds = efd_skillIds d\<rparr>]"
  using assms ExperiencePage_onSubmit_sent[of "s\<lparr>ex_errors := []\<rparr>" mutation r1 r2 d]
  by (simp add: ExperiencePage_handleSubmit_def ExperiencePage_payload_def)

theorem C3_current_job_witness:
  "isCurrentJob (ExperiencePage_mount\<lparr>ex_isModalOpen := True, isCurrentJob := True,
        ex_form := \<lparr>efv_startYear = Some 2019, efv_endYear = Some 2021, efv_companyName = ''Acme'',
          efv_description = Some [], efv_location = ''Oslo'', efv_skillIds = Some []\<rparr>\<rparr>) \<and>
   experienceSchema 2026 (ex_form (ExperiencePage_mount\<lparr>ex_isModalOpen := True, isCurrentJob := True,
        ex_form := \<lparr>efv_startYear = Some 2019, efv_endYear = Some 2021, efv_companyName = ''Acme'',
          efv_description = Some [], efv_location = ''Oslo'', efv_skillIds = Some []\<rparr>\<rparr>)) = Inr \<lparr>efd_startYear = 2019, efd_endYear = Some 2021, efd_companyName = ''Acme'',
        efd_description = Some [], efd_location = ''Oslo'', efd_skillIds = Some []\<rparr> \<and>
   sent_bodies (new_events [] (ex_log (ExperiencePage_handleSubmit 2026 (Inl ''Network Error'')
      (Inl ''Network Error'') (Inl ''Network Error'') (ExperiencePage_mount\<lparr>ex_isModalOpen := True, isCurrentJob := True,
        ex_form := \<lparr>efv_startYear = Some 2019, efv_endYear = Some 2021, efv_companyName = ''Acme'',
          efv_description = Some [], efv_location = ''Oslo'', efv_skillIds = Some []\<rparr>\<rparr>)))) =
    [ExperienceJson \<lparr>ecd_startYear = 2019, ecd_endYear = None, ecd_companyName = ''Acme'',
       ecd_description = Some [], ecd_location = ''Oslo'', ecd_skillIds = Some []\<rparr>]"
  using C3_current_job_endYear_null[of "(ExperiencePage_mount\<lparr>ex_isModalOpen := True, isCurrentJob := True,
        ex_form := \<lparr>efv_startYear = Some 2019, efv_endYear = Some 2021, efv_companyName = ''Acme'',
          efv_description = Some [], efv_location = ''Oslo'', efv_skillIds = Some []\<rparr>\<rparr>)" 2026 "\<lparr>efd_startYear = 2019, efd_endYear = Some 2021, efd_companyName = ''Acme'',
        efd_description = Some [], efd_location = ''Oslo'', efd_skillIds = Some []\<rparr>"
     "Inl ''Network Error''" "Inl ''Network Error''" "Inl ''Network Error''"]
  by (simp add: experienceSchema_def ExperiencePage_mount_def)

text \<open>
  C4: on every entity page, when the list fetch issued on mount fails, the page
  leaves the loading state with its collection still empty, the log holds the request
  (one per list, none repeated) and exactly one error notification.
\<close>

theorem C4_failed_initial_fetch:
  "(call_fails rS \<longrightarrow>
      skills (Skills_loadSkills rS Skills_mount) = [] \<and>
      \<not> sk_isLoading (Skills_loadSkills rS Skills_mount) \<and>
      sk_log (Skills_loadSkills rS Skills_mount) =
        [Request GET ''/skills'' NoBody, ToastError ''Failed to load skills'']) \<and>
   (call_fails rD \<longrightarrow>
      education (EducationPage_loadEducation rD EducationPage_mount) = [] \<and>
      \<not> ed_isLoading (EducationPage_loadEducation rD EducationPage_mount) \<and>
      ed_log (EducationPage_loadEducation rD EducationPage_mount) =
        [Request GET ''/education'' NoBody, ToastError ''Failed to load education'']) \<and>
   (call_fails rE \<or> call_fails kE \<longrightarrow>
      experiences (ExperiencePage_loadData rE kE ExperiencePage_mount) = [] \<and>
      \<not> ex_isLoading (ExperiencePage_loadData rE kE ExperiencePage_mount) \<and>
      ex_log (ExperiencePage_loadData rE kE ExperiencePage_mount) =
        [Request GET ''/experience'' NoBody, Request GET ''/skills'' NoBody,
         ToastError ''Failed to load data'']) \<and>
   (call_fails rC \<or> call_fails kC \<longrightarrow>
      certifications (CertificationsPage_loadData rC kC CertificationsPage_mount) = [] \<and>
      \<not> ce_isLoading (CertificationsPage_loadData rC kC CertificationsPage_mount) \<and>
      ce_log (CertificationsPage_loadData rC kC CertificationsPage_mount) =
        [Request GET ''/certifications'' NoBody, Request GET ''/skills'' NoBody,
         ToastError ''Failed to load data'']) \<and>
   (call_fails rP \<or> call_fails kP \<longrightarrow>
      projects (Projects_loadData rP kP Projects_mount) = [] \<and>
      \<not> pr_isLoading (Projects_loadData rP kP Projects_mount) \<and>
      pr_log (Projects_loadData rP kP Projects_mount) =
        [Request GET ''/projects'' NoBody, Request GET ''/skills'' NoBody,
         ToastError ''Failed to load data''])"
  by (simp add: Skills_mount_load_fails EducationPage_mount_load_fails
      ExperiencePage_mount_load_fails CertificationsPage_mount_load_fails
      Projects_mount_load_fails)
     (simp add: Skills_mount_def EducationPage_mount_def ExperiencePage_mount_def
      CertificationsPage_mount_def Projects_mount_def)

theorem C4_failed_initial_fetch_witness:
  "call_fails (Inl ''Network Error'' :: Skill list transport) \<and>
   skills (Skills_loadSkills (Inl ''Network Error'') Skills_mount) = [] \<and>
   sk_log (Skills_loadSkills (Inl ''Network Error'') Skills_mount) =
     [Request GET ''/skills'' NoBody, ToastError ''Failed to load skills''] \<and>
   call_fails (Inr \<lparr>success = False, data = None, error = Some ''Unauthorized''\<rparr> :: Skill list transport) \<and>
   experiences (ExperiencePage_loadData (Inr \<lparr>success = True, data = Some [], error = None\<rparr>)
      (Inr \<lparr>success = False, data = None, error = Some ''Unauthorized''\<rparr>) ExperiencePage_mount) = [] \<and>
   \<not> ex_isLoading (ExperiencePage_loadData (Inr \<lparr>success = True, data = Some [], error = None\<rparr>)
      (Inr \<lparr>success = False, data = None, error = Some ''Unauthorized''\<rparr>) ExperiencePage_mount)"
  using C4_failed_initial_fetch
      [where rS = "Inl ''Network Error''"
         and rE = "Inr \<lparr>success = True, data = Some [], error = None\<rparr>"
         and kE = "Inr \<lparr>success = False, data = None, error = Some ''Unauthorized''\<rparr>"]
  by (simp add: call_fails_def failing_def)

text \<open>
  C6: submitting the skill form with no icon file while no skill is being edited is
  stopped before any request: the only effect is the error notification
  \<open>Icon is required for new skills\<close>, and the skills list is unchanged.
\<close>

theorem C6_icon_required_for_new_skill:
  assumes "editingSkill s = None" and "first_file (sfd_icon d) = None"
  shows "Skills_onSubmit ic now mutation refetch d s =
           s\<lparr>sk_log := sk_log s @ [ToastError ''Icon is required for new skills''],
             sk_isSubmitting := False\<rparr> \<and>
         new_events (sk_log s) (sk_log (Skills_onSubmit ic now mutation refetch d s)) =
           [ToastError ''Icon is required for new skills''] \<and>
         skills (Skills_onSubmit ic now mutation refetch d s) = skills s"
  using assms by (simp add: Skills_onSubmit_def Skills_onSubmit_try_def)

theorem C6_icon_required_witness:
  "editingSkill Skills_mount = None \<and>
   first_file (sfd_icon \<lparr>sfd_name = ''Go'', sfd_icon = Some []\<rparr>) = None \<and>
   sk_log (Skills_onSubmit (\<lambda>f opts. Inr f) 0 (Inl ''Network Error'') (Inl ''Network Error'')
      \<lparr>sfd_name = ''Go'', sfd_icon = Some []\<rparr> Skills_mount) =
     [ToastError ''Icon is required for new skills'']"
  using C6_icon_required_for_new_skill[of Skills_mount "\<lparr>sfd_name = ''Go'', sfd_icon = Some []\<rparr>"
     "\<lambda>f opts. Inr f" 0 "Inl ''Network Error''" "Inl ''Network Error''"]
  by (simp add: Skills_mount_def first_file_def)

subsection \<open>Search\<close>

lemma includes_str_sublist: "includes_str s q \<longleftrightarrow> sublist q s"
  by (induction s) (simp_all add: sublist_Cons_right)

lemma optional_field_match:
  "(includes_str a q \<or> includes_str b q \<or>
      (case d of None \<Rightarrow> False | Some t \<Rightarrow> t \<noteq> [] \<and> includes_str (toLowerCase t) q))
   \<longleftrightarrow> list_ex (\<lambda>f. sublist q (toLowerCase f))
          ([a0, b0] @ (case d of None \<Rightarrow> [] | Some t \<Rightarrow> [t]))"
  if "a = toLowerCase a0" "b = toLowerCase b0"
proof (cases d)
  case None
  with that show ?thesis by (simp add: includes_str_sublist)
next
  case (Some t)
  show ?thesis
  proof (cases "t = []")
    case True
    with Some that show ?thesis
      by (auto simp: includes_str_sublist toLowerCase_def)
  next
    case False
    with Some that show ?thesis by (simp add: includes_str_sublist)
  qed
qed

lemma experience_match:
  "(includes_str (toLowerCase (exp_companyName e)) (toLowerCase q) \<or>
    includes_str (toLowerCase (exp_location e)) (toLowerCase q) \<or>
    (case exp_description e of
       None \<Rightarrow> False
     | Some d \<Rightarrow> d \<noteq> [] \<and> includes_str (toLowerCase d) (toLowerCase q)))
   = matches q (experience_fields e)"
  unfolding matches_def experience_fields_def
  by (rule optional_field_match[OF refl refl])

lemma certification_match:
  "(includes_str (toLowerCase (cert_name c)) (toLowerCase q) \<or>
    includes_str (toLowerCase (cert_issuingOrganization c)) (toLowerCase q) \<or>
    (case cert_description c of
       None \<Rightarrow> False
     | Some d \<Rightarrow> d \<noteq> [] \<and> includes_str (toLowerCase d) (toLowerCase q)))
   = matches q (certification_fields c)"
  unfolding matches_def certification_fields_def
  by (rule optional_field_match[OF refl refl])

lemma filteredExperiences_matches:
  "filteredExperiences s = filter (\<lambda>e. matches (ex_searchQuery s) (experience_fields e)) (experiences s)"
  unfolding filteredExperiences_def by (simp only: experience_match)

lemma filteredCertifications_matches:
  "filteredCertifications s =
     filter (\<lambda>c. matches (ce_searchQuery s) (certification_fields c)) (certifications s)"
  unfolding filteredCertifications_def by (simp only: certification_match)

lemma filteredSkills_matches:
  "filteredSkills s = filter (\<lambda>k. matches (sk_searchQuery s) (skill_fields k)) (skills s)"
  by (simp add: filteredSkills_def matches_def skill_fields_def includes_str_sublist)

text \<open>
  C7: for every loaded collection and query, the filter of the experience, the
  certification and the skill page returns exactly the entities that match the query
  on their documented fields, and setting the query leaves the loaded collection as it
  was.
\<close>

theorem C7_search_filter:
  "filteredExperiences (ExperiencePage_setSearchQuery q se) =
     filter (\<lambda>e. matches q (experience_fields e)) (experiences se) \<and>
   experiences (ExperiencePage_setSearchQuery q se) = experiences se \<and>
   filteredCertifications (CertificationsPage_setSearchQuery q sc) =
     filter (\<lambda>c. matches q (certification_fields c)) (certifications sc) \<and>
   certifications (CertificationsPage_setSearchQuery q sc) = certifications sc \<and>
   filteredSkills (Skills_setSearchQuery q sk) =
     filter (\<lambda>k. matches q (skill_fields k)) (skills sk) \<and>
   skills (Skills_setSearchQuery q sk) = skills sk"
  by (simp add: filteredExperiences_matches filteredCertifications_matches filteredSkills_matches
      ExperiencePage_setSearchQuery_def CertificationsPage_setSearchQuery_def
      Skills_setSearchQuery_def)

theorem C7_search_filter_witness:
  "filteredSkills (Skills_setSearchQuery ''SCR'' (Skills_mount\<lparr>skills := [\<lparr>skill_id = ''s1'', skill_userId = ''u1'', skill_name = ''TypeScript'', skill_icon = ''ts.png'', skill_createdAt = ''t0'', skill_updatedAt = ''t0''\<rparr>, \<lparr>skill_id = ''s2'', skill_userId = ''u1'', skill_name = ''Go'', skill_icon = ''go.png'', skill_createdAt = ''t0'', skill_updatedAt = ''t0''\<rparr>]\<rparr>)) = [\<lparr>skill_id = ''s1'', skill_userId = ''u1'', skill_name = ''TypeScript'', skill_icon = ''ts.png'', skill_createdAt = ''t0'', skill_updatedAt = ''t0''\<rparr>]"
proof -
  have "filter (\<lambda>k. matches ''SCR'' (skill_fields k)) [\<lparr>skill_id = ''s1'', skill_userId = ''u1'', skill_name = ''TypeScript'', skill_icon = ''ts.png'', skill_createdAt = ''t0'', skill_updatedAt = ''t0''\<rparr>, \<lparr>skill_id = ''s2'', skill_userId = ''u1'', skill_name = ''Go'', skill_icon = ''go.png'', skill_createdAt = ''t0'', skill_updatedAt = ''t0''\<rparr>] = [\<lparr>skill_id = ''s1'', skill_userId = ''u1'', skill_name = ''TypeScript'', skill_icon = ''ts.png'', skill_createdAt = ''t0'', skill_updatedAt = ''t0''\<rparr>]"
    by code_simp
  then show ?thesis
    using C7_search_filter[where q = "''SCR''" and sk = "Skills_mount\<lparr>skills := [\<lparr>skill_id = ''s1'', skill_userId = ''u1'', skill_name = ''TypeScript'', skill_icon = ''ts.png'', skill_createdAt = ''t0'', skill_updatedAt = ''t0''\<rparr>, \<lparr>skill_id = ''s2'', skill_userId = ''u1'', skill_name = ''Go'', skill_icon = ''go.png'', skill_createdAt = ''t0'', skill_updatedAt = ''t0''\<rparr>]\<rparr>"]
    by simp
qed

subsection \<open>Social-media entries\<close>

lemma separators_append: "separators (a @ b) = separators a + separators b"
  by (simp add: separators_def)

lemma separators_dropWhile: "separators (dropWhile is_space s) = separators s"
  by (induction s) (auto simp: separators_def is_space_def)

lemma separators_rev: "separators (rev s) = separators s"
  by (simp add: separators_def flip: rev_filter)

lemma separators_trim: "separators (trim s) = separators s"
  by (simp add: trim_def separators_rev separators_dropWhile)

lemma separators_Cons:
  "separators (c # s) = (if c = CHR ''|'' then 1 else 0) + separators s"
  by (simp add: separators_def)

lemma separators_Nil: "separators [] = 0"
  by (simp add: separators_def)

lemma separators_formattedLink:
  "separators (trim a @ CHR ''|'' # trim b) = separators a + separators b + 1"
  by (simp add: separators_append separators_Cons separators_trim)

lemma remove_subset: "set (socialMedias (handleRemoveSocialMedia i s)) \<subseteq> set (socialMedias s)"
  by (auto simp: handleRemoveSocialMedia_def in_set_enumerate_eq)

lemma remove_inputs:
  "newSocialMediaIcon (handleRemoveSocialMedia i s) = newSocialMediaIcon s"
  "newSocialMediaUrl (handleRemoveSocialMedia i s) = newSocialMediaUrl s"
  by (simp_all add: handleRemoveSocialMedia_def)

lemma step_at_least_one:
  assumes "\<forall>e\<in>set (socialMedias s). 1 \<le> separators e"
  shows "\<forall>e\<in>set (socialMedias (socialMedia_step s a)). 1 \<le> separators e"
proof (cases a)
  case AddSocialMedia
  with assms show ?thesis
    by (auto simp: handleAddSocialMedia_def separators_formattedLink)
next
  case (RemoveSocialMedia i)
  with assms remove_subset[of i s] show ?thesis by auto
qed (use assms in simp_all)

lemma run_at_least_one:
  "\<forall>e\<in>set (socialMedias s). 1 \<le> separators e \<Longrightarrow>
   \<forall>e\<in>set (socialMedias (foldl socialMedia_step s acts)). 1 \<le> separators e"
proof (induction acts arbitrary: s)
  case Nil
  then show ?case by simp
next
  case (Cons a acts)
  from Cons.IH[OF step_at_least_one[OF Cons.prems, of a]] show ?case by simp
qed

lemma step_exactly_one:
  assumes "clean s" and "separators (typed_text a) = 0"
  shows "clean (socialMedia_step s a)"
proof (cases a)
  case AddSocialMedia
  with assms show ?thesis
    by (auto simp: clean_def handleAddSocialMedia_def separators_formattedLink separators_Nil)
next
  case (RemoveSocialMedia i)
  with assms remove_subset[of i s] show ?thesis
    by (auto simp: clean_def remove_inputs)
qed (use assms in \<open>simp_all add: clean_def\<close>)

lemma run_exactly_one:
  "clean s \<Longrightarrow> \<forall>a\<in>set acts. separators (typed_text a) = 0 \<Longrightarrow>
   clean (foldl socialMedia_step s acts)"
proof (induction acts arbitrary: s)
  case Nil
  then show ?case by simp
next
  case (Cons a acts)
  have "clean (socialMedia_step s a)"
    using Cons.prems by (intro step_exactly_one) simp_all
  moreover have "\<forall>a\<in>set acts. separators (typed_text a) = 0"
    using Cons.prems by simp
  ultimately have "clean (foldl socialMedia_step (socialMedia_step s a) acts)"
    by (rule Cons.IH)
  then show ?case by simp
qed

text \<open>
  What does hold of the editor: an added entry always contains a separator, so
  entries with at least one separator stay so; and the entries have exactly one
  separator as long as no typed icon name or URL contains \<open>|\<close>.
\<close>

lemma socialMedias_separator_invariant:
  "((\<forall>e\<in>set (socialMedias s). 1 \<le> separators e) \<longrightarrow>
      (\<forall>e\<in>set (socialMedias (foldl socialMedia_step s acts)). 1 \<le> separators e)) \<and>
   ((\<forall>e\<in>set (socialMedias s). separators e = 1) \<and>
    separators (newSocialMediaIcon s) = 0 \<and> separators (newSocialMediaUrl s) = 0 \<and>
    (\<forall>a\<in>set acts. separators (typed_text a) = 0) \<longrightarrow>
      (\<forall>e\<in>set (socialMedias (foldl socialMedia_step s acts)). separators e = 1))"
proof (intro conjI impI)
  assume "\<forall>e\<in>set (socialMedias s). 1 \<le> separators e"
  then show "\<forall>e\<in>set (socialMedias (foldl socialMedia_step s acts)). 1 \<le> separators e"
    by (rule run_at_least_one)
next
  assume h: "(\<forall>e\<in>set (socialMedias s). separators e = 1) \<and>
    separators (newSocialMediaIcon s) = 0 \<and> separators (newSocialMediaUrl s) = 0 \<and>
    (\<forall>a\<in>set acts. separators (typed_text a) = 0)"
  then have "clean s" by (simp add: clean_def)
  moreover from h have "\<forall>a\<in>set acts. separators (typed_text a) = 0" by simp
  ultimately have "clean (foldl socialMedia_step s acts)" by (rule run_exactly_one)
  then show "\<forall>e\<in>set (socialMedias (foldl socialMedia_step s acts)). separators e = 1"
    by (simp add: clean_def)
qed

text \<open>
  C5 requires every entry of \<open>socialMedias\<close> to contain exactly one \<open>|\<close>. The add
  handler does not keep that: with the icon name \<open>web\<close> and a URL that contains \<open>|\<close>
  the stored entry has two separators, and the list then shows a URL cut at the second
  one, not the URL that was typed.
\<close>

theorem C5_separator_broken_by_add:
  "socialMedias (foldl socialMedia_step UserDetailsPage_mount
     [SetNewSocialMediaIcon ''web'', SetNewSocialMediaUrl ''https://a.example/?q=x|y'',
      AddSocialMedia]) = [''web|https://a.example/?q=x|y''] \<and>
   separators ''web|https://a.example/?q=x|y'' = 2 \<and>
   rendered_link ''web|https://a.example/?q=x|y'' = (''web'', Some ''https://a.example/?q=x'')"
  by code_simp

subsection \<open>Certificate link\<close>

lemma certificationSchema_Inr:
  assumes "certificationSchema is_url cy v = Inr d"
  shows "certificateLink_accepted is_url (cfv_certificateLink v) \<and>
         cfd_certificateLink d = cfv_certificateLink v \<and>
         cfd_name d = cfv_name v \<and> cfd_issuingOrganization d = cfv_issuingOrganization v \<and>
         cfv_year v = Some (cfd_year d) \<and> cfd_description d = cfv_description v \<and>
         cfd_skillIds d = cfv_skillIds v"
  using assms
  by (auto simp: certificationSchema_def Let_def split: list.splits option.splits if_splits)

lemma certificationSchema_Inl:
  assumes "certificationSchema is_url cy v = Inl issues"
  shows "(''certificateLink'' \<in> fst ` set issues) =
           (\<not> certificateLink_accepted is_url (cfv_certificateLink v))"
    and "(''certificateLink'', Some ''Invalid URL'') \<in> set issues \<or>
         ''certificateLink'' \<notin> fst ` set issues"
  using assms
  by (auto simp: certificationSchema_def Let_def split: list.splits option.splits if_splits)

lemma certificationSchema_rejects:
  assumes "\<not> certificateLink_accepted is_url (cfv_certificateLink v)"
  shows "\<exists>issues. certificationSchema is_url cy v = Inl issues"
  using assms
  by (auto simp: certificationSchema_def Let_def split: list.splits option.splits if_splits)


text \<open>
  C9: when the certification form is submitted with the text \<open>l\<close> in the certificate
  link field, the schema accepts the field only if \<open>l\<close> is a well-formed URL or the
  empty string. Otherwise the submission stops with an issue on \<open>certificateLink\<close> and
  no request is made. An empty link is left out of the payload handed to create or
  update.
\<close>

theorem C9_certificateLink_validation:
  assumes link: "cfv_certificateLink (ce_form s) = Some l"
  shows "(\<not> is_url l \<and> l \<noteq> [] \<longrightarrow>
            ''certificateLink'' \<in> fst ` set (ce_errors
               (CertificationsPage_handleSubmit is_url currentYear mutation r1 r2 s)) \<and>
            new_events (ce_log s) (ce_log
               (CertificationsPage_handleSubmit is_url currentYear mutation r1 r2 s)) = []) \<and>
         (is_url l \<or> l = [] \<longrightarrow>
            ''certificateLink'' \<notin> fst ` set (ce_errors
               (CertificationsPage_handleSubmit is_url currentYear mutation r1 r2 s))) \<and>
         (l = [] \<and> certificationSchema is_url currentYear (ce_form s) = Inr d \<longrightarrow>
            sent_bodies (new_events (ce_log s) (ce_log
               (CertificationsPage_handleSubmit is_url currentYear mutation r1 r2 s))) =
              [CertificationJson
                 \<lparr>ccd_name = cfd_name d, ccd_issuingOrganization = cfd_issuingOrganization d,
                  ccd_year = cfd_year d, ccd_description = cfd_description d,
                  ccd_certificateLink = None, ccd_skillIds = cfd_skillIds d\<rparr>])"
proof (intro conjI impI)
  assume bad: "\<not> is_url l \<and> l \<noteq> []"
  with link have rej: "\<not> certificateLink_accepted is_url (cfv_certificateLink (ce_form s))"
    by (simp add: certificateLink_accepted_def)
  then obtain issues where iss: "certificationSchema is_url currentYear (ce_form s) = Inl issues"
    using certificationSchema_rejects by blast
  with rej have "''certificateLink'' \<in> fst ` set issues"
    using certificationSchema_Inl(1) by blast
  with iss show "''certificateLink'' \<in> fst ` set (ce_errors
               (CertificationsPage_handleSubmit is_url currentYear mutation r1 r2 s))"
    by (simp add: CertificationsPage_handleSubmit_def)
  from iss show "new_events (ce_log s) (ce_log
               (CertificationsPage_handleSubmit is_url currentYear mutation r1 r2 s)) = []"
    by (simp add: CertificationsPage_handleSubmit_def new_events_def)
next
  assume good: "is_url l \<or> l = []"
  with link have acc: "certificateLink_accepted is_url (cfv_certificateLink (ce_form s))"
    by (auto simp: certificateLink_accepted_def)
  show "''certificateLink'' \<notin> fst ` set (ce_errors
               (CertificationsPage_handleSubmit is_url currentYear mutation r1 r2 s))"
  proof (cases "certificationSchema is_url currentYear (ce_form s)")
    case (Inl issues)
    with acc have "''certificateLink'' \<notin> fst ` set issues"
      using certificationSchema_Inl(1) by blast
    with Inl show ?thesis by (simp add: CertificationsPage_handleSubmit_def)
  next
    case (Inr d')
    have "ce_errors (CertificationsPage_onSubmit mutation r1 r2 d' (s\<lparr>ce_errors := []\<rparr>)) = []"
      by (rule CertificationsPage_onSubmit_errors) simp
    with Inr show ?thesis by (simp add: CertificationsPage_handleSubmit_def)
  qed
next
  assume h: "l = [] \<and> certificationSchema is_url currentYear (ce_form s) = Inr d"
  with link have "cfd_certificateLink d = Some []"
    using certificationSchema_Inr by fastforce
  then have p: "CertificationsPage_payload d =
      \<lparr>ccd_name = cfd_name d, ccd_issuingOrganization = cfd_issuingOrganization d,
       ccd_year = cfd_year d, ccd_description = cfd_description d,
       ccd_certificateLink = None, ccd_skillIds = cfd_skillIds d\<rparr>"
    by (simp add: CertificationsPage_payload_def)
  from h CertificationsPage_onSubmit_sent[of "s\<lparr>ce_errors := []\<rparr>" mutation r1 r2 d]
  show "sent_bodies (new_events (ce_log s) (ce_log
               (CertificationsPage_handleSubmit is_url currentYear mutation r1 r2 s))) =
              [CertificationJson
                 \<lparr>ccd_name = cfd_name d, ccd_issuingOrganization = cfd_issuingOrganization d,
                  ccd_year = cfd_year d, ccd_description = cfd_description d,
                  ccd_certificateLink = None, ccd_skillIds = cfd_skillIds d\<rparr>]"
    by (simp add: CertificationsPage_handleSubmit_def p)
qed

theorem C9_certificateLink_witness:
  "cfv_certificateLink (ce_form (CertificationsPage_mount\<lparr>ce_isModalOpen := True, ce_form :=
      \<lparr>cfv_name = ''AWS SAA'', cfv_issuingOrganization = ''Amazon'', cfv_year = Some 2024,
        cfv_description = Some [], cfv_certificateLink = Some ''not a url'', cfv_skillIds = Some []\<rparr>\<rparr>)) = Some ''not a url'' \<and>
   \<not> (\<lambda>u. take 8 u = ''https://'') ''not a url'' \<and>
   ''certificateLink'' \<in> fst ` set (ce_errors (CertificationsPage_handleSubmit (\<lambda>u. take 8 u = ''https://'') 2026 (Inl ''Network Error'') (Inl ''Network Error'') (Inl ''Network Error'') (CertificationsPage_mount\<lparr>ce_isModalOpen := True, ce_form :=
      \<lparr>cfv_name = ''AWS SAA'', cfv_issuingOrganization = ''Amazon'', cfv_year = Some 2024,
        cfv_description = Some [], cfv_certificateLink = Some ''not a url'', cfv_skillIds = Some []\<rparr>\<rparr>))) \<and>
   new_events (ce_log (CertificationsPage_mount\<lparr>ce_isModalOpen := True, ce_form :=
      \<lparr>cfv_name = ''AWS SAA'', cfv_issuingOrganization = ''Amazon'', cfv_year = Some 2024,
        cfv_description = Some [], cfv_certificateLink = Some ''not a url'', cfv_skillIds = Some []\<rparr>\<rparr>)) (ce_log (CertificationsPage_handleSubmit (\<lambda>u. take 8 u = ''https://'') 2026 (Inl ''Network Error'') (Inl ''Network Error'') (Inl ''Network Error'') (CertificationsPage_mount\<lparr>ce_isModalOpen := True, ce_form :=
      \<lparr>cfv_name = ''AWS SAA'', cfv_issuingOrganization = ''Amazon'', cfv_year = Some 2024,
        cfv_description = Some [], cfv_certificateLink = Some ''not a url'', cfv_skillIds = Some []\<rparr>\<rparr>))) = [] \<and>
   cfv_certificateLink (ce_form (CertificationsPage_mount\<lparr>ce_isModalOpen := True, ce_form :=
      \<lparr>cfv_name = ''AWS SAA'', cfv_issuingOrganization = ''Amazon'', cfv_year = Some 2024,
        cfv_description = Some [], cfv_certificateLink = Some [], cfv_skillIds = Some []\<rparr>\<rparr>)) = Some [] \<and>
   certificationSchema (\<lambda>u. take 8 u = ''https://'') 2026 (ce_form (CertificationsPage_mount\<lparr>ce_isModalOpen := True, ce_form :=
      \<lparr>cfv_name = ''AWS SAA'', cfv_issuingOrganization = ''Amazon'', cfv_year = Some 2024,
        cfv_description = Some [], cfv_certificateLink = Some [], cfv_skillIds = Some []\<rparr>\<rparr>)) = Inr \<lparr>cfd_name = ''AWS SAA'', cfd_issuingOrganization = ''Amazon'', cfd_year = 2024,
        cfd_description = Some [], cfd_certificateLink = Some [], cfd_skillIds = Some []\<rparr> \<and>
   sent_bodies (new_events (ce_log (CertificationsPage_mount\<lparr>ce_isModalOpen := True, ce_form :=
      \<lparr>cfv_name = ''AWS SAA'', cfv_issuingOrganization = ''Amazon'', cfv_year = Some 2024,
        cfv_description = Some [], cfv_certificateLink = Some [], cfv_skillIds = Some []\<rparr>\<rparr>)) (ce_log (CertificationsPage_handleSubmit (\<lambda>u. take 8 u = ''https://'') 2026 (Inl ''Network Error'') (Inl ''Network Error'') (Inl ''Network Error'') (CertificationsPage_mount\<lparr>ce_isModalOpen := True, ce_form :=
      \<lparr>cfv_name = ''AWS SAA'', cfv_issuingOrganization = ''Amazon'', cfv_year = Some 2024,
        cfv_description = Some [], cfv_certificateLink = Some [], cfv_skillIds = Some []\<rparr>\<rparr>)))) =
     [CertificationJson
        \<lparr>ccd_name = ''AWS SAA'', ccd_issuingOrganization = ''Amazon'', ccd_year = 2024,
         ccd_description = Some [], ccd_certificateLink = None, ccd_skillIds = Some []\<rparr>]"
  using C9_certificateLink_validation
      [of "(CertificationsPage_mount\<lparr>ce_isModalOpen := True, ce_form :=
      \<lparr>cfv_name = ''AWS SAA'', cfv_issuingOrganization = ''Amazon'', cfv_year = Some 2024,
        cfv_description = Some [], cfv_certificateLink = Some ''not a url'', cfv_skillIds = Some []\<rparr>\<rparr>)" "''not a url''" "(\<lambda>u. take 8 u = ''https://'')" 2026 "Inl ''Network Error''" "Inl ''Network Error''"
          "Inl ''Network Error''"]
    C9_certificateLink_validation
      [of "(CertificationsPage_mount\<lparr>ce_isModalOpen := True, ce_form :=
      \<lparr>cfv_name = ''AWS SAA'', cfv_issuingOrganization = ''Amazon'', cfv_year = Some 2024,
        cfv_description = Some [], cfv_certificateLink = Some [], cfv_skillIds = Some []\<rparr>\<rparr>)" "[]" "(\<lambda>u. take 8 u = ''https://'')" 2026 "Inl ''Network Error''" "Inl ''Network Error''"
          "Inl ''Network Error''" "\<lparr>cfd_name = ''AWS SAA'', cfd_issuingOrganization = ''Amazon'', cfd_year = 2024,
        cfd_description = Some [], cfd_certificateLink = Some [], cfd_skillIds = Some []\<rparr>"]
  by (simp add: certificationSchema_def certificateLink_accepted_def CertificationsPage_mount_def)

text \<open>
  C10: \<open>compressImage\<close> never propagates an error. It always returns a file; when
  the compression transform fails the result is the input file unchanged, and when the
  transform succeeds the returned file carries the input file's name.
\<close>

theorem C10_compressImage_never_throws:
  "(\<exists>f. compressImage ic now file options = Inr f) \<and>
   (\<forall>err. ic file (mergedOptions options) = Inl err \<longrightarrow>
      compressImage ic now file options = Inr file) \<and>
   (\<forall>c. ic file (mergedOptions options) = Inr c \<longrightarrow>
      (\<exists>f. compressImage ic now file options = Inr f \<and> file_name f = file_name file))"
  by (auto simp: compressImage_def compressImage_try_def split: sum.splits)

theorem C10_compressImage_witness:
  "(\<lambda>f opts. if file_name f = ''bad.png'' then Inl ''decode failed''
               else Inr (f\<lparr>file_name := ''blob'', file_bits := ''z''\<rparr>))
      \<lparr>file_name = ''bad.png'', file_type = ''image/png'', lastModified = 1, file_bits = ''zzzz''\<rparr>
      (mergedOptions no_options) = Inl ''decode failed'' \<and>
   compressImage
     (\<lambda>f opts. if file_name f = ''bad.png'' then Inl ''decode failed''
               else Inr (f\<lparr>file_name := ''blob'', file_bits := ''z''\<rparr>))
     7 \<lparr>file_name = ''bad.png'', file_type = ''image/png'', lastModified = 1, file_bits = ''zzzz''\<rparr>
     no_options
   = Inr \<lparr>file_name = ''bad.png'', file_type = ''image/png'', lastModified = 1, file_bits = ''zzzz''\<rparr> \<and>
   compressImage
     (\<lambda>f opts. if file_name f = ''bad.png'' then Inl ''decode failed''
               else Inr (f\<lparr>file_name := ''blob'', file_bits := ''z''\<rparr>))
     7 \<lparr>file_name = ''ok.png'', file_type = ''image/png'', lastModified = 1, file_bits = ''zzzz''\<rparr>
     no_options
   = Inr \<lparr>file_name = ''ok.png'', file_type = ''image/png'', lastModified = 7, file_bits = ''z''\<rparr>"
  using C10_compressImage_never_throws
    [of "\<lambda>f opts. if file_name f = ''bad.png'' then Inl ''decode failed''
               else Inr (f\<lparr>file_name := ''blob'', file_bits := ''z''\<rparr>)"
        7 "\<lparr>file_name = ''bad.png'', file_type = ''image/png'', lastModified = 1, file_bits = ''zzzz''\<rparr>"
        no_options]
    C10_compressImage_never_throws
    [of "\<lambda>f opts. if file_name f = ''bad.png'' then Inl ''decode failed''
               else Inr (f\<lparr>file_name := ''blob'', file_bits := ''z''\<rparr>)"
        7 "\<lparr>file_name = ''ok.png'', file_type = ''image/png'', lastModified = 1, file_bits = ''zzzz''\<rparr>"
        no_options]
  by (simp add: compressImage_def compressImage_try_def)

text \<open>
  C8: whatever the session state, \<open>logout\<close> removes \<open>auth_token\<close> and \<open>user\<close> from
  the persisted storage and resets the store to \<open>user = null\<close>,
  \<open>isAuthenticated = false\<close>; afterwards \<open>getStoredToken\<close>, \<open>getStoredUser\<close> and
  \<open>isAuthenticated\<close> report an unauthenticated session.
\<close>

theorem C8_logout_clears_session:
  "localStorage (fst (useAuthStore_logout (b, st))) ''auth_token'' = None \<and>
   localStorage (fst (useAuthStore_logout (b, st))) ''user'' = None \<and>
   user (snd (useAuthStore_logout (b, st))) = None \<and>
   \<not> isAuthenticated (snd (useAuthStore_logout (b, st))) \<and>
   authService_getStoredToken (fst (useAuthStore_logout (b, st))) = None \<and>
   authService_getStoredUser JSON_parse (fst (useAuthStore_logout (b, st))) = Inr None \<and>
   \<not> authService_isAuthenticated (fst (useAuthStore_logout (b, st)))"
  by (simp add: useAuthStore_logout_def authService_logout_def removeItem_def getItem_def
      authService_getStoredToken_def authService_getStoredUser_def
      authService_isAuthenticated_def)

end
